theory Spec2Isabelle
  imports Complex_Main
begin

section \<open>Achievement catalogue and evaluation (src/components/achievementManager.js)\<close>

subsection \<open>Stat mapping and achievement catalogue\<close>

text \<open>
  The stat mapping is the object held in the hook's \<open>stats\<close> state. Its six counters are
  JavaScript numbers; they are modelled as integers.
\<close>

record stats =
  discord_connections :: int
  videos_added :: int
  messages_sent :: int
  watch_time :: int
  max_queue_size :: int
  sessions_played :: int

text \<open>The initial value of the \<open>stats\<close> state (and the default of the loader).\<close>

definition initial_stats :: stats where
  "initial_stats =
     \<lparr>discord_connections = 0, videos_added = 0, messages_sent = 0,
      watch_time = 0, max_queue_size = 0, sessions_played = 0\<rparr>"

text \<open>
  The source writes \<open>(x || 0)\<close> around every counter it reads. On a number the
  expression yields \<open>0\<close> when \<open>x\<close> is \<open>0\<close> and \<open>x\<close> otherwise.
\<close>

definition or0 :: "int \<Rightarrow> int" where
  "or0 x = (if x = 0 then 0 else x)"

text \<open>
  An entry of \<open>ACHIEVEMENT_DEFINITIONS\<close>. The fields \<open>description\<close> and \<open>icon\<close>
  are presentation only and are left out; \<open>id\<close> and \<open>type\<close> carry a prime because the
  plain names are taken.
\<close>

record achievement =
  id' :: int
  name :: string
  type' :: string
  target :: int

definition ACHIEVEMENT_DEFINITIONS :: "achievement list" where
  "ACHIEVEMENT_DEFINITIONS =
    [\<lparr>id' = 1, name = ''First Connection'', type' = ''discord_connection'', target = 1\<rparr>,
     \<lparr>id' = 2, name = ''Video Master'', type' = ''videos_added'', target = 10\<rparr>,
     \<lparr>id' = 3, name = ''Chat Champion'', type' = ''messages_sent'', target = 50\<rparr>,
     \<lparr>id' = 4, name = ''Just Warming Up'', type' = ''watch_time'', target = 3600\<rparr>,
     \<lparr>id' = 5, name = ''Queue Master'', type' = ''max_queue_size'', target = 5\<rparr>,
     \<lparr>id' = 6, name = ''Channel Surfer Pro'', type' = ''watch_time'', target = 36000\<rparr>,
     \<lparr>id' = 7, name = ''The Algorithmic Abyss Diver'', type' = ''watch_time'',
      target = 180000\<rparr>,
     \<lparr>id' = 8, name = ''Pixelated Pupil'', type' = ''watch_time'', target = 540000\<rparr>,
     \<lparr>id' = 9, name = ''YouTube Grandmaster (and Potential Hermit)'', type' = ''watch_time'',
      target = 1800000\<rparr>,
     \<lparr>id' = 10, name = ''Time to go Outside'', type' = ''watch_time'', target = 3600000\<rparr>]"

subsection \<open>checkAchievements\<close>

text \<open>
  The \<open>switch (achievement.type)\<close> of \<open>checkAchievements\<close>: one comparison per known
  type, \<open>shouldUnlock\<close> staying \<open>false\<close> in the \<open>default\<close> branch. Only the
  \<open>watch_time\<close> case wraps the target in \<open>(target || 0)\<close>.
\<close>

definition shouldUnlock :: "stats \<Rightarrow> achievement \<Rightarrow> bool" where
  "shouldUnlock currentStats a =
     (if type' a = ''discord_connection''
        then target a \<le> or0 (discord_connections currentStats)
      else if type' a = ''videos_added''
        then target a \<le> or0 (videos_added currentStats)
      else if type' a = ''messages_sent''
        then target a \<le> or0 (messages_sent currentStats)
      else if type' a = ''watch_time''
        then or0 (target a) \<le> or0 (watch_time currentStats)
      else if type' a = ''max_queue_size''
        then target a \<le> or0 (max_queue_size currentStats)
      else False)"

text \<open>
  The body of the \<open>forEach\<close>. The accumulator is \<open>(newUnlocked, hasNewAchievements,
  logged)\<close>: the working copy of the unlocked set, the flag, and the ids announced by
  \<open>console.log\<close> so far, in order.
\<close>

definition unlock_step ::
  "stats \<Rightarrow> int set \<times> bool \<times> int list \<Rightarrow> achievement \<Rightarrow> int set \<times> bool \<times> int list" where
  "unlock_step currentStats acc a =
     (case acc of (newUnlocked, hasNewAchievements, logged) \<Rightarrow>
        if id' a \<notin> newUnlocked then
          (if shouldUnlock currentStats a
             then (insert (id' a) newUnlocked, True, logged @ [id' a])
             else acc)
        else acc)"

definition unlock_loop :: "stats \<Rightarrow> int set \<Rightarrow> int set \<times> bool \<times> int list" where
  "unlock_loop currentStats unlockedAchievements =
     foldl (unlock_step currentStats) (unlockedAchievements, False, []) ACHIEVEMENT_DEFINITIONS"

text \<open>
  \<open>checkAchievements currentStats\<close> run in a render whose unlocked set is
  \<open>unlockedAchievements\<close>: the value of the unlocked set afterwards. It is replaced by
  the working copy only when the flag was raised.
\<close>

definition checkAchievements :: "stats \<Rightarrow> int set \<Rightarrow> int set" where
  "checkAchievements currentStats unlockedAchievements =
     (case unlock_loop currentStats unlockedAchievements of
        (newUnlocked, hasNewAchievements, logged) \<Rightarrow>
          if hasNewAchievements then newUnlocked else unlockedAchievements)"

text \<open>The ids one run newly unlocks, in the order it announces them.\<close>

definition evaluate :: "stats \<Rightarrow> int set \<Rightarrow> int list" where
  "evaluate currentStats unlockedAchievements =
     snd (snd (unlock_loop currentStats unlockedAchievements))"

text \<open>Coordinate-wise domination of stat mappings.\<close>

definition dominates :: "stats \<Rightarrow> stats \<Rightarrow> bool" where
  "dominates S S' =
     (discord_connections S' \<le> discord_connections S \<and>
      videos_added S' \<le> videos_added S \<and>
      messages_sent S' \<le> messages_sent S \<and>
      watch_time S' \<le> watch_time S \<and>
      max_queue_size S' \<le> max_queue_size S \<and>
      sessions_played S' \<le> sessions_played S)"

text \<open>The fourth catalogue entry, named for the one-hour scenario.\<close>

definition warming_up :: achievement where
  "warming_up = \<lparr>id' = 4, name = ''Just Warming Up'', type' = ''watch_time'', target = 3600\<rparr>"

section \<open>Validation utilities (utils/validation.js)\<close>

subsection \<open>JavaScript numbers\<close>

text \<open>
  A JavaScript number is \<open>NaN\<close>, one of the two infinities, or a finite value. Finite
  values are modelled as exact reals: the rounding of IEEE doubles is not modelled.
\<close>

datatype jsnum = NaN | NegInfinity | Finite real | PosInfinity

text \<open>\<open>Math.min\<close> and \<open>Math.max\<close> on two arguments: \<open>NaN\<close> is contagious.\<close>

fun Math_min :: "jsnum \<Rightarrow> jsnum \<Rightarrow> jsnum" where
  "Math_min NaN y = NaN"
| "Math_min x NaN = NaN"
| "Math_min NegInfinity y = NegInfinity"
| "Math_min x NegInfinity = NegInfinity"
| "Math_min PosInfinity y = y"
| "Math_min x PosInfinity = x"
| "Math_min (Finite a) (Finite b) = Finite (min a b)"

fun Math_max :: "jsnum \<Rightarrow> jsnum \<Rightarrow> jsnum" where
  "Math_max NaN y = NaN"
| "Math_max x NaN = NaN"
| "Math_max PosInfinity y = PosInfinity"
| "Math_max x PosInfinity = PosInfinity"
| "Math_max NegInfinity y = y"
| "Math_max x NegInfinity = x"
| "Math_max (Finite a) (Finite b) = Finite (max a b)"

definition isNaN :: "jsnum \<Rightarrow> bool" where
  "isNaN num = (num = NaN)"

subsection \<open>parseFloat\<close>

text \<open>
  The built-in \<open>parseFloat\<close> on a string, after ECMAScript: leading white space is
  skipped, then the longest prefix that is a \<open>StrDecimalLiteral\<close> is read (an optional
  sign, then \<open>Infinity\<close> or decimal digits with an optional fraction and an optional
  exponent); what follows is ignored, and \<open>NaN\<close> is returned when there is no such
  prefix. White space is the ASCII white space; a literal too large for a double is not
  turned into an infinity.
\<close>

definition is_digit :: "char \<Rightarrow> bool" where
  "is_digit c = (48 \<le> (of_char c :: nat) \<and> (of_char c :: nat) \<le> 57)"

definition is_white_space :: "char \<Rightarrow> bool" where
  "is_white_space c = ((of_char c :: nat) \<in> {9, 10, 11, 12, 13, 32})"

definition digits_value :: "string \<Rightarrow> nat" where
  "digits_value ds = foldl (\<lambda>n c. 10 * n + (of_char c - 48)) 0 ds"

definition starts_with :: "string \<Rightarrow> string \<Rightarrow> bool" where
  "starts_with p s = (take (length p) s = p)"

text \<open>
  The value of the \<open>ExponentPart\<close> at the head of \<open>r\<close>, or \<open>0\<close> when \<open>r\<close> does not start
  with one (an \<open>e\<close> that no digit follows is not part of the literal).
\<close>

definition exponent_part :: "string \<Rightarrow> int" where
  "exponent_part r =
     (case r of
        [] \<Rightarrow> 0
      | c # r1 \<Rightarrow>
          if c = CHR ''e'' \<or> c = CHR ''E'' then
            (case r1 of
               [] \<Rightarrow> 0
             | s # r2 \<Rightarrow>
                 if s = CHR ''-'' then - int (digits_value (takeWhile is_digit r2))
                 else if s = CHR ''+'' then int (digits_value (takeWhile is_digit r2))
                 else int (digits_value (takeWhile is_digit r1)))
          else 0)"

definition times_pow10 :: "real \<Rightarrow> int \<Rightarrow> real" where
  "times_pow10 m e = (if 0 \<le> e then m * 10 ^ nat e else m / 10 ^ nat (- e))"

definition unsigned_literal :: "string \<Rightarrow> jsnum" where
  "unsigned_literal r =
     (if starts_with ''Infinity'' r then PosInfinity
      else
        let ip = takeWhile is_digit r;
            r1 = dropWhile is_digit r;
            fp = (if starts_with ''.'' r1 then takeWhile is_digit (tl r1) else []);
            r2 = (if starts_with ''.'' r1 \<and> (ip \<noteq> [] \<or> fp \<noteq> [])
                  then dropWhile is_digit (tl r1) else r1)
        in if ip = [] \<and> fp = [] then NaN
           else Finite (times_pow10
                          (real (digits_value ip) + real (digits_value fp) / 10 ^ length fp)
                          (exponent_part r2)))"

definition negate :: "jsnum \<Rightarrow> jsnum" where
  "negate n =
     (case n of NaN \<Rightarrow> NaN | NegInfinity \<Rightarrow> PosInfinity
      | Finite x \<Rightarrow> Finite (- x) | PosInfinity \<Rightarrow> NegInfinity)"

definition parseFloat :: "string \<Rightarrow> jsnum" where
  "parseFloat s =
     (let t = dropWhile is_white_space s in
      case t of
        [] \<Rightarrow> NaN
      | c # r \<Rightarrow>
          if c = CHR ''-'' then negate (unsigned_literal r)
          else if c = CHR ''+'' then unsigned_literal r
          else unsigned_literal t)"

subsection \<open>validateNumber\<close>

text \<open>
  \<open>validateNumber(value, min, max)\<close>. The caller hands it the text of an input element,
  so the raw value is a string; \<open>min\<close> and \<open>max\<close> carry a prime because the plain names
  are taken.
\<close>

definition validateNumber :: "string \<Rightarrow> jsnum \<Rightarrow> jsnum \<Rightarrow> jsnum" where
  "validateNumber v min' max' =
     (let num = parseFloat v in
      if isNaN num then min' else Math_max min' (Math_min max' num))"

subsection \<open>JavaScript values and JSON text\<close>

text \<open>
  The values the persistence helpers are handed: \<open>undefined\<close>, \<open>null\<close>, booleans,
  numbers, strings, arrays and plain objects (a list of properties in insertion order).
\<close>

datatype jsval =
    JUndefined
  | JNull
  | JBool bool
  | JNumber jsnum
  | JString string
  | JArray "jsval list"
  | JObject "(string \<times> jsval) list"

definition typeof :: "jsval \<Rightarrow> string" where
  "typeof v =
     (case v of
        JUndefined \<Rightarrow> ''undefined''
      | JNull \<Rightarrow> ''object''
      | JBool b \<Rightarrow> ''boolean''
      | JNumber n \<Rightarrow> ''number''
      | JString s \<Rightarrow> ''string''
      | JArray xs \<Rightarrow> ''object''
      | JObject kvs \<Rightarrow> ''object'')"

text \<open>
  The document that the text \<open>JSON.stringify(v)\<close> denotes, for a value other than
  \<open>undefined\<close>: \<open>NaN\<close> and the infinities become \<open>null\<close>, an \<open>undefined\<close> array
  element becomes \<open>null\<close>, and a property whose value is \<open>undefined\<close> is dropped.
\<close>

fun to_json :: "jsval \<Rightarrow> jsval" where
  "to_json JUndefined = JUndefined"
| "to_json JNull = JNull"
| "to_json (JBool b) = JBool b"
| "to_json (JNumber n) = (case n of Finite x \<Rightarrow> JNumber (Finite x) | _ \<Rightarrow> JNull)"
| "to_json (JString s) = JString s"
| "to_json (JArray xs) = JArray (map (\<lambda>x. if x = JUndefined then JNull else to_json x) xs)"
| "to_json (JObject kvs) =
     JObject (map (\<lambda>kv. (fst kv, to_json (snd kv))) (filter (\<lambda>kv. snd kv \<noteq> JUndefined) kvs))"

text \<open>
  A string as \<open>JSON.parse\<close> sees it: the text of a JSON document, represented by the
  document it denotes, or text that is not JSON, on which \<open>JSON.parse\<close> raises a
  \<open>SyntaxError\<close>. The spelling of a document (white space, escapes) is not modelled.
\<close>

datatype jstext = Json jsval | NotJson string

text \<open>
  The string that \<open>localStorage.setItem(key, JSON.stringify(v))\<close> stores:
  \<open>JSON.stringify(undefined)\<close> is \<open>undefined\<close>, which \<open>setItem\<close> converts to the
  nine letters \<open>undefined\<close>.
\<close>

definition JSON_stringify :: "jsval \<Rightarrow> jstext" where
  "JSON_stringify v = (if v = JUndefined then NotJson ''undefined'' else Json (to_json v))"

text \<open>\<open>JSON.parse\<close>: \<open>None\<close> stands for the \<open>SyntaxError\<close>.\<close>

definition JSON_parse :: "jstext \<Rightarrow> jsval option" where
  "JSON_parse t = (case t of Json d \<Rightarrow> Some d | NotJson s \<Rightarrow> None)"

definition safeJsonParse :: "jstext \<Rightarrow> jsval \<Rightarrow> jsval" where
  "safeJsonParse jsonString fallback =
     (case JSON_parse jsonString of Some v \<Rightarrow> v | None \<Rightarrow> fallback)"

subsection \<open>safeLocalStorageGet and safeLocalStorageSet\<close>

text \<open>
  What the helpers see of the browser: whether \<open>window\<close> is defined, whether touching
  \<open>localStorage\<close> raises (storage disabled), whether \<open>setItem\<close> raises (quota
  exceeded), and the stored items.
\<close>

record browser =
  window_defined :: bool
  storage_blocked :: bool
  storage_full :: bool
  localStorage :: "string \<rightharpoonup> jstext"

text \<open>
  \<open>safeLocalStorageGet(key, defaultValue, validator)\<close>; the optional validator is
  \<open>None\<close> when the caller passes none. Every exception ends in the \<open>catch\<close> that returns
  the default.
\<close>

definition safeLocalStorageGet ::
  "browser \<Rightarrow> string \<Rightarrow> jsval \<Rightarrow> (jsval \<Rightarrow> bool) option \<Rightarrow> jsval" where
  "safeLocalStorageGet b key defaultValue validator =
     (if \<not> window_defined b then defaultValue
      else if storage_blocked b then defaultValue
      else
        (case localStorage b key of
           None \<Rightarrow> defaultValue
         | Some item \<Rightarrow>
             let parsed = safeJsonParse item defaultValue in
             (case validator of
                None \<Rightarrow> parsed
              | Some p \<Rightarrow> if \<not> p parsed then defaultValue else parsed)))"

text \<open>
  \<open>safeLocalStorageSet(key, value)\<close>: the browser afterwards. A write that raises is
  caught and logged, and nothing is stored.
\<close>

definition safeLocalStorageSet :: "browser \<Rightarrow> string \<Rightarrow> jsval \<Rightarrow> browser" where
  "safeLocalStorageSet b key v =
     (if \<not> window_defined b then b
      else if storage_blocked b \<or> storage_full b then b
      else b\<lparr>localStorage := (localStorage b)(key \<mapsto> JSON_stringify v)\<rparr>)"

text \<open>A value that \<open>JSON.stringify\<close> followed by \<open>JSON.parse\<close> gives back unchanged.\<close>

definition json_faithful :: "jsval \<Rightarrow> bool" where
  "json_faithful v = (v \<noteq> JUndefined \<and> to_json v = v)"

section \<open>State of the achievements hook (src/components/achievementManager.js)\<close>

subsection \<open>Hook state and persistence of the stat mapping\<close>

text \<open>The keys of \<open>STORAGE_KEYS\<close> (utils/constants.js) that the hook uses.\<close>

definition STORAGE_KEYS_STATS :: string where
  "STORAGE_KEYS_STATS = ''achievement_stats''"

definition STORAGE_KEYS_WATCH_SESSION :: string where
  "STORAGE_KEYS_WATCH_SESSION = ''watch_session_start''"

text \<open>The stat mapping as the object handed to \<open>safeLocalStorageSet\<close>.\<close>

definition num :: "int \<Rightarrow> jsval" where
  "num i = JNumber (Finite (real_of_int i))"

definition stats_object :: "stats \<Rightarrow> jsval" where
  "stats_object st =
     JObject
       [(''discord_connections'', num (discord_connections st)),
        (''videos_added'', num (videos_added st)),
        (''messages_sent'', num (messages_sent st)),
        (''watch_time'', num (watch_time st)),
        (''max_queue_size'', num (max_queue_size st)),
        (''sessions_played'', num (sessions_played st))]"

text \<open>\<open>now.toString()\<close> of an integer: its decimal digits.\<close>

fun decimal :: "nat \<Rightarrow> string" where
  "decimal n =
     (if n < 10 then [''0123456789'' ! n]
      else decimal (n div 10) @ [''0123456789'' ! (n mod 10)])"

definition toString :: "int \<Rightarrow> string" where
  "toString i = (if i < 0 then CHR ''-'' # decimal (nat (- i)) else decimal (nat i))"

text \<open>
  The state of \<open>useAchievements\<close> together with the browser it persists to.
  \<open>watchSessionStart\<close> is \<open>null\<close> (\<open>None\<close>) or a number of milliseconds.
\<close>

record achievements_state =
  browser :: browser
  stats :: stats
  unlockedAchievements :: "int set"
  watchSessionStart :: "int option"

text \<open>
  The state after the first render: the initial values of the three \<open>useState\<close> calls.
\<close>

definition initial_achievements_state :: "browser \<Rightarrow> achievements_state" where
  "initial_achievements_state b =
     \<lparr>browser = b, stats = initial_stats, unlockedAchievements = {},
      watchSessionStart = None\<rparr>"

text \<open>The test \<open>if (watchSessionStart)\<close>: \<open>null\<close> and \<open>0\<close> are falsy.\<close>

definition truthy :: "int option \<Rightarrow> bool" where
  "truthy w = (case w of None \<Rightarrow> False | Some t \<Rightarrow> t \<noteq> 0)"

text \<open>
  \<open>saveStats(newStats)\<close> writes the object to storage and replaces the \<open>stats\<close> state by
  it (a plain \<open>setStats(newStats)\<close>, not an updater function).
\<close>

definition saveStats ::
  "stats \<Rightarrow> 'a achievements_state_scheme \<Rightarrow> 'a achievements_state_scheme" where
  "saveStats newStats s =
     s\<lparr>browser := safeLocalStorageSet (browser s) STORAGE_KEYS_STATS (stats_object newStats),
       stats := newStats\<rparr>"

subsection \<open>Watch session\<close>

text \<open>
  A callback made by \<open>useCallback\<close> reads the state variables of the render that made
  it. Where a callback reads \<open>watchSessionStart\<close> or \<open>stats\<close> that way, the captured value
  is an argument of the model (\<open>captured_start\<close>, \<open>captured_stats\<close>); a callback run from
  the latest render is given the current values. \<open>Date.now()\<close> is the argument \<open>now\<close>.
\<close>

definition startWatchSession ::
  "int option \<Rightarrow> int \<Rightarrow> 'a achievements_state_scheme \<Rightarrow> 'a achievements_state_scheme" where
  "startWatchSession captured_start now s =
     (if \<not> truthy captured_start then
        s\<lparr>watchSessionStart := Some now,
          browser := safeLocalStorageSet (browser s) STORAGE_KEYS_WATCH_SESSION
                       (JString (toString now))\<rparr>
      else s)"

text \<open>
  The callback of the one-second \<open>setInterval\<close>. The interval exists only while
  \<open>watchSessionStart\<close> is truthy; the callback adds one second through an updater
  function (\<open>setStats(prevStats => ...)\<close>), and only when at least one whole second
  lies between the session start and \<open>now\<close>.
\<close>

definition watch_time_tick ::
  "int \<Rightarrow> 'a achievements_state_scheme \<Rightarrow> 'a achievements_state_scheme" where
  "watch_time_tick now s =
     (case watchSessionStart s of
        None \<Rightarrow> s
      | Some start \<Rightarrow>
          if start = 0 then s
          else
            let sessionDuration = (now - start) div 1000 in
            if 0 < sessionDuration then
              let prevStats = stats s;
                  newWatchTime = or0 (watch_time prevStats) + 1;
                  newStats = prevStats\<lparr>watch_time := newWatchTime\<rparr>
              in s\<lparr>browser := safeLocalStorageSet (browser s) STORAGE_KEYS_STATS
                                (stats_object newStats),
                    stats := newStats\<rparr>
            else s)"

text \<open>The guarded \<open>localStorage.removeItem(key)\<close> of \<open>endWatchSession\<close>.\<close>

definition localStorage_removeItem :: "browser \<Rightarrow> string \<Rightarrow> browser" where
  "localStorage_removeItem b key =
     (if \<not> window_defined b then b
      else if storage_blocked b then b
      else b\<lparr>localStorage := (localStorage b)(key := None)\<rparr>)"

text \<open>
  \<open>endWatchSession\<close>: \<open>sessionDuration\<close> is the number of whole seconds since the
  start; only a positive duration counts a session played, and no duration is added
  to the watch time here. The new stat mapping is built from the captured one.
\<close>

definition endWatchSession ::
  "int option \<Rightarrow> stats \<Rightarrow> int \<Rightarrow> 'a achievements_state_scheme \<Rightarrow> 'a achievements_state_scheme" where
  "endWatchSession captured_start captured_stats now s =
     (case captured_start of
        None \<Rightarrow> s
      | Some start \<Rightarrow>
          if start = 0 then s
          else
            let sessionDuration = (now - start) div 1000;
                s1 = (if 0 < sessionDuration then
                        saveStats
                          (captured_stats\<lparr>sessions_played :=
                             or0 (sessions_played captured_stats) + 1\<rparr>) s
                      else s)
            in s1\<lparr>watchSessionStart := None,
                  browser := localStorage_removeItem (browser s1) STORAGE_KEYS_WATCH_SESSION\<rparr>)"


subsection \<open>Tracking callbacks of the hook\<close>

text \<open>
  Each tracking callback builds \<open>newStats\<close> from the \<open>stats\<close> it captured and hands it
  to \<open>saveStats\<close>, which replaces the state: of two such calls made from the same
  render, the second one overwrites what the first one stored.
\<close>

definition trackDiscordConnection ::
  "stats \<Rightarrow> 'a achievements_state_scheme \<Rightarrow> 'a achievements_state_scheme" where
  "trackDiscordConnection captured_stats s =
     saveStats
       (captured_stats\<lparr>discord_connections := or0 (discord_connections captured_stats) + 1\<rparr>) s"

definition trackVideoAdded ::
  "stats \<Rightarrow> 'a achievements_state_scheme \<Rightarrow> 'a achievements_state_scheme" where
  "trackVideoAdded captured_stats s =
     saveStats (captured_stats\<lparr>videos_added := or0 (videos_added captured_stats) + 1\<rparr>) s"

definition trackMessageSent ::
  "stats \<Rightarrow> 'a achievements_state_scheme \<Rightarrow> 'a achievements_state_scheme" where
  "trackMessageSent captured_stats s =
     saveStats (captured_stats\<lparr>messages_sent := or0 (messages_sent captured_stats) + 1\<rparr>) s"

definition trackQueueSize ::
  "stats \<Rightarrow> int \<Rightarrow> 'a achievements_state_scheme \<Rightarrow> 'a achievements_state_scheme" where
  "trackQueueSize captured_stats currentQueueSize s =
     (if or0 (max_queue_size captured_stats) < currentQueueSize
      then saveStats (captured_stats\<lparr>max_queue_size := currentQueueSize\<rparr>) s
      else s)"

subsection \<open>Loading the saved stat mapping\<close>

text \<open>
  Reading a property of a value: \<open>None\<close> stands for the \<open>TypeError\<close> raised on
  \<open>null\<close> and \<open>undefined\<close>; a property that is not there reads as \<open>undefined\<close>.
\<close>

definition get_property :: "jsval \<Rightarrow> string \<Rightarrow> jsval option" where
  "get_property v key =
     (case v of
        JUndefined \<Rightarrow> None
      | JNull \<Rightarrow> None
      | JObject kvs \<Rightarrow> (case map_of kvs key of Some x \<Rightarrow> Some x | None \<Rightarrow> Some JUndefined)
      | _ \<Rightarrow> Some JUndefined)"

text \<open>
  The validator the hook passes for the stat mapping:
  \<open>typeof data === 'object' && data !== null && typeof data.watch_time === 'number'\<close>.
\<close>

definition stats_validator :: "jsval \<Rightarrow> bool" where
  "stats_validator d =
     (typeof d = ''object'' \<and> d \<noteq> JNull \<and>
      (case get_property d ''watch_time'' of Some w \<Rightarrow> typeof w = ''number'' | None \<Rightarrow> False))"

text \<open>
  The loaded object as a stat mapping. The counters of the model are integers: a
  counter that is missing or not a finite number reads as \<open>0\<close> (the source reads it
  through \<open>(x || 0)\<close>), and of a fractional one the integer part is taken.
\<close>

definition counter :: "jsval \<Rightarrow> string \<Rightarrow> int" where
  "counter d key =
     (case get_property d key of Some (JNumber (Finite r)) \<Rightarrow> \<lfloor>r\<rfloor> | _ \<Rightarrow> 0)"

definition stats_of_object :: "jsval \<Rightarrow> stats" where
  "stats_of_object d =
     \<lparr>discord_connections = counter d ''discord_connections'',
      videos_added = counter d ''videos_added'',
      messages_sent = counter d ''messages_sent'',
      watch_time = counter d ''watch_time'',
      max_queue_size = counter d ''max_queue_size'',
      sessions_played = counter d ''sessions_played''\<rparr>"

text \<open>
  The first effect of the hook, as far as the stat mapping goes: \<open>savedStats\<close> is read
  from storage and \<open>setStats(savedStats)\<close> is queued. (The unlocked ids and the session
  marker, which the same effect loads, are left out.)
\<close>

definition load_saved_stats_effect ::
  "'a achievements_state_scheme \<Rightarrow> 'a achievements_state_scheme" where
  "load_saved_stats_effect s =
     s\<lparr>stats :=
         stats_of_object
           (safeLocalStorageGet (browser s) STORAGE_KEYS_STATS (stats_object initial_stats)
              (Some stats_validator))\<rparr>"

section \<open>URL and origin validation (utils/validation.js, utils/constants.js)\<close>

subsection \<open>URL validation\<close>

definition VALIDATION_MAX_MESSAGE_LENGTH :: nat where
  "VALIDATION_MAX_MESSAGE_LENGTH = 500"

text \<open>\<open>String.prototype.trim\<close> on ASCII text.\<close>

definition trim :: "string \<Rightarrow> string" where
  "trim s = rev (dropWhile is_white_space (rev (dropWhile is_white_space s)))"

text \<open>\<open>sanitizeString(input, maxLength)\<close> on a string: \<open>input.trim().substring(0, maxLength)\<close>.\<close>

definition sanitizeString :: "string \<Rightarrow> nat \<Rightarrow> string" where
  "sanitizeString input maxLength = take maxLength (trim input)"

text \<open>
  \<open>VALIDATION.YOUTUBE_URL_PATTERN\<close> is \<open>/(?:v=|\/)([0-9A-Za-z_-]{11}).*/\<close>. The pattern
  is not anchored: \<open>url.match\<close> finds the leftmost position where \<open>v=\<close> or a slash is
  followed by eleven characters of the class, and the group is those eleven characters.
\<close>

definition is_id_char :: "char \<Rightarrow> bool" where
  "is_id_char c =
     (is_digit c \<or>
      (65 \<le> (of_char c :: nat) \<and> (of_char c :: nat) \<le> 90) \<or>
      (97 \<le> (of_char c :: nat) \<and> (of_char c :: nat) \<le> 122) \<or>
      c = CHR ''_'' \<or> c = CHR ''-'')"

definition id_group :: "string \<Rightarrow> string option" where
  "id_group s =
     (if 11 \<le> length s \<and> list_all is_id_char (take 11 s) then Some (take 11 s) else None)"

definition match_here :: "string \<Rightarrow> string option" where
  "match_here s =
     (if starts_with ''v='' s then id_group (drop 2 s)
      else if starts_with ''/'' s then id_group (drop 1 s)
      else None)"

fun YOUTUBE_URL_PATTERN :: "string \<Rightarrow> string option" where
  "YOUTUBE_URL_PATTERN [] = None"
| "YOUTUBE_URL_PATTERN (c # cs) =
     (case match_here (c # cs) of
        Some v \<Rightarrow> Some v
      | None \<Rightarrow> YOUTUBE_URL_PATTERN cs)"

definition getYoutubeVideoId :: "string \<Rightarrow> string option" where
  "getYoutubeVideoId url = YOUTUBE_URL_PATTERN url"

definition isValidYoutubeUrl :: "string \<Rightarrow> bool" where
  "isValidYoutubeUrl url = (getYoutubeVideoId url \<noteq> None)"

subsection \<open>Origin allow-list\<close>

definition YOUTUBE_CONFIG_ALLOWED_ORIGINS :: "string list" where
  "YOUTUBE_CONFIG_ALLOWED_ORIGINS = [''https://www.youtube.com'', ''https://youtube.com'']"

definition isValidYoutubeOrigin :: "string \<Rightarrow> bool" where
  "isValidYoutubeOrigin origin = (origin \<in> set YOUTUBE_CONFIG_ALLOWED_ORIGINS)"

section \<open>Application shell (the page component)\<close>

subsection \<open>State of the page component\<close>

text \<open>
  The state variables of the component that the controller reads and writes, on top of
  the state of the achievements hook it uses.
\<close>

record app = achievements_state +
  youtubeUrl :: string
  youtubeInput :: string
  urlError :: string
  isYoutubePlaying :: bool
  discordConnected :: bool
  chatUsername :: string
  youtubeQueue :: "string list"
  currentIndex :: int

definition initial_app :: "browser \<Rightarrow> app" where
  "initial_app b =
     \<lparr>browser = b, stats = initial_stats, unlockedAchievements = {},
      watchSessionStart = None,
      youtubeUrl = [], youtubeInput = [], urlError = [], isYoutubePlaying = False,
      discordConnected = False, chatUsername = [], youtubeQueue = [], currentIndex = - 1\<rparr>"

text \<open>
  The effect on \<open>[currentIndex, youtubeQueue]\<close> that plays the selected video.
\<close>

definition play_from_queue_effect :: "app \<Rightarrow> app" where
  "play_from_queue_effect s =
     (if 0 \<le> currentIndex s \<and> currentIndex s < int (length (youtubeQueue s)) then
        s\<lparr>youtubeUrl := youtubeQueue s ! nat (currentIndex s), isYoutubePlaying := True\<rparr>
      else if length (youtubeQueue s) = 0 then
        s\<lparr>youtubeUrl := [], isYoutubePlaying := False\<rparr>
      else s)"

subsection \<open>Messages from the embedded player\<close>

text \<open>
  A \<open>message\<close> event: its origin and its data, which is a string (seen as
  \<open>JSON.parse\<close> sees it) or some other value.
\<close>

datatype message_data = StringData jstext | OtherData jsval

record message_event =
  origin :: string
  data :: message_data

text \<open>
  \<open>handleMessage\<close>. A message from an origin outside the allow-list, or whose data is
  not a string, is dropped before anything is parsed; a parse error or a \<open>TypeError\<close>
  ends in the empty \<open>catch\<close>. The ended event advances \<open>currentIndex\<close> when there is
  a next video and clears \<open>isYoutubePlaying\<close> otherwise.
\<close>

definition handleMessage :: "message_event \<Rightarrow> app \<Rightarrow> app" where
  "handleMessage event s =
     (case data event of
        OtherData v \<Rightarrow> s
      | StringData t \<Rightarrow>
          if \<not> isValidYoutubeOrigin (origin event) then s
          else
            (case JSON_parse t of
               None \<Rightarrow> s
             | Some d \<Rightarrow>
                 (case get_property d ''event'' of
                    None \<Rightarrow> s
                  | Some e \<Rightarrow>
                      if e = JString ''onStateChange'' \<and>
                         get_property d ''info'' = Some (JNumber (Finite 0))
                      then
                        (if currentIndex s + 1 < int (length (youtubeQueue s))
                         then s\<lparr>currentIndex := currentIndex s + 1\<rparr>
                         else s\<lparr>isYoutubePlaying := False\<rparr>)
                      else s)))"

text \<open>The payload of the player's ended event: \<open>onStateChange\<close> with \<open>info\<close> 0.\<close>

definition ended_event :: jsval where
  "ended_event = JObject [(''event'', JString ''onStateChange''), (''info'', JNumber (Finite 0))]"

subsection \<open>Queue operations\<close>

text \<open>
  \<open>addToQueue(url)\<close>. An empty \<open>url\<close> returns at once. The two tracking callbacks are
  the ones \<open>addToQueue\<close> captured, both made in the same render, so both work from the
  same \<open>captured_stats\<close>.
\<close>

definition addToQueue :: "stats \<Rightarrow> string \<Rightarrow> app \<Rightarrow> app" where
  "addToQueue captured_stats url s =
     (if url = [] then s
      else
        let sanitizedUrl = sanitizeString url VALIDATION_MAX_MESSAGE_LENGTH in
        if \<not> isValidYoutubeUrl sanitizedUrl then
          s\<lparr>urlError := ''Please enter a valid YouTube URL.''\<rparr>
        else
          let prev = youtubeQueue s;
              newQueue = prev @ [sanitizedUrl];
              s1 = trackVideoAdded captured_stats (s\<lparr>urlError := []\<rparr>);
              s2 = trackQueueSize captured_stats (int (length newQueue)) s1;
              s3 = (if length prev = 0 \<and> 0 < length newQueue
                    then s2\<lparr>currentIndex := 0, isYoutubePlaying := True\<rparr>
                    else s2)
          in s3\<lparr>youtubeQueue := newQueue, youtubeInput := []\<rparr>)"

definition handleNext :: "app \<Rightarrow> app" where
  "handleNext s =
     (if currentIndex s + 1 < int (length (youtubeQueue s))
      then s\<lparr>currentIndex := currentIndex s + 1, isYoutubePlaying := True\<rparr>
      else s\<lparr>isYoutubePlaying := False\<rparr>)"

definition handlePrevious :: "app \<Rightarrow> app" where
  "handlePrevious s =
     (if 0 < currentIndex s
      then s\<lparr>currentIndex := currentIndex s - 1, isYoutubePlaying := True\<rparr>
      else s)"

text \<open>\<open>Array.prototype.indexOf\<close>: the first position of the element, or \<open>-1\<close>.\<close>

definition indexOf :: "'a list \<Rightarrow> 'a \<Rightarrow> int" where
  "indexOf xs x = (if x \<in> set xs then int (length (takeWhile (\<lambda>y. y \<noteq> x) xs)) else - 1)"

text \<open>\<open>playFromHistory(item)\<close>, given the \<open>src\<close> of the history entry.\<close>

definition playFromHistory :: "string \<Rightarrow> app \<Rightarrow> app" where
  "playFromHistory src s =
     (if src \<noteq> [] then
        let indexInQueue = indexOf (youtubeQueue s) src;
            s1 = (if indexInQueue \<noteq> - 1 then s\<lparr>currentIndex := indexInQueue\<rparr>
                  else
                    let newQueue = youtubeQueue s @ [src]
                    in s\<lparr>youtubeQueue := newQueue, currentIndex := int (length newQueue) - 1\<rparr>)
        in s1\<lparr>isYoutubePlaying := True\<rparr>
      else s)"

text \<open>
  The argument of \<open>onVideoStateChange\<close>: every field may be absent. \<open>queue\<close> is present
  when it is an array, \<open>index\<close> when it is a number.
\<close>

record video_state_change =
  videoUrl :: "string option"
  playbackState :: "string option"
  queue :: "string list option"
  index :: "int option"

definition onVideoStateChange :: "video_state_change \<Rightarrow> app \<Rightarrow> app" where
  "onVideoStateChange m s =
     (let s1 = (case queue m of
                  Some q \<Rightarrow> if 0 < length q then s\<lparr>youtubeQueue := q\<rparr> else s
                | None \<Rightarrow> s);
          s2 = (case index m of
                  Some i \<Rightarrow> if 0 \<le> i \<and> i \<noteq> currentIndex s then s1\<lparr>currentIndex := i\<rparr> else s1
                | None \<Rightarrow> s1);
          s3 = (case videoUrl m of
                  Some u \<Rightarrow> if u \<noteq> [] \<and> u \<noteq> youtubeUrl s then s2\<lparr>youtubeUrl := u\<rparr> else s2
                | None \<Rightarrow> s2)
      in (case playbackState m of
            Some p \<Rightarrow>
              if p = ''play'' then s3\<lparr>isYoutubePlaying := True\<rparr>
              else if p = ''pause'' \<or> p = ''stop'' then s3\<lparr>isYoutubePlaying := False\<rparr>
              else s3
          | None \<Rightarrow> s3))"

text \<open>The queue invariant: a selected index points into the queue.\<close>

definition queue_invariant :: "app \<Rightarrow> bool" where
  "queue_invariant s = (currentIndex s < 0 \<or> currentIndex s < int (length (youtubeQueue s)))"

text \<open>
  The operations on the queue: the four user operations (with the stat mapping the
  enqueue callback captured), a message from the player, and an update from the chat.
\<close>

datatype operation =
    Enqueue stats string
  | Advance
  | Retreat
  | SelectFromHistory string
  | PlayerMessage message_event
  | ChatUpdate video_state_change

fun apply_operation :: "operation \<Rightarrow> app \<Rightarrow> app" where
  "apply_operation (Enqueue captured_stats url) s = addToQueue captured_stats url s"
| "apply_operation Advance s = handleNext s"
| "apply_operation Retreat s = handlePrevious s"
| "apply_operation (SelectFromHistory src) s = playFromHistory src s"
| "apply_operation (PlayerMessage event) s = handleMessage event s"
| "apply_operation (ChatUpdate m) s = onVideoStateChange m s"

definition run :: "operation list \<Rightarrow> app \<Rightarrow> app" where
  "run ops s = foldl (\<lambda>st op. apply_operation op st) s ops"

text \<open>
  A chat update that is consistent in itself: it carries a non-empty queue together
  with an index inside that queue, or it carries neither a non-empty queue nor an index
  that is at least 0.
\<close>

definition consistent_update :: "video_state_change \<Rightarrow> bool" where
  "consistent_update m =
     (case queue m of
        Some (x # xs) \<Rightarrow>
          (case index m of Some i \<Rightarrow> 0 \<le> i \<and> i < int (length (x # xs)) | None \<Rightarrow> False)
      | _ \<Rightarrow> (case index m of Some i \<Rightarrow> i < 0 | None \<Rightarrow> True))"

definition admissible :: "operation \<Rightarrow> bool" where
  "admissible op = (case op of ChatUpdate m \<Rightarrow> consistent_update m | _ \<Rightarrow> True)"

subsection \<open>Watch-session effect of the page\<close>

text \<open>
  The page keeps the start of its session in the ref \<open>watchSessionStartTimeRef\<close>, and
  an effect with the dependencies \<open>[isYoutubePlaying, youtubeUrl, startWatchSession,
  endWatchSession]\<close> starts and ends the hook's session. \<open>startWatchSession\<close> is made
  anew when \<open>watchSessionStart\<close> changes, \<open>endWatchSession\<close> when \<open>watchSessionStart\<close>
  or \<open>stats\<close> changes. The last four fields hold the values these four state variables
  had in the render in which the effect last ran: the dependencies of the next render
  are compared with them, and the cleanup of the effect calls the \<open>endWatchSession\<close>
  of that render. (The \<open>stats\<close> objects are compared by content.)
\<close>

record page = app +
  watchSessionStartTimeRef :: "int option"
  effect_playing :: bool
  effect_url :: string
  effect_start :: "int option"
  effect_stats :: stats

text \<open>Whether a dependency of the session effect has changed since it last ran.\<close>

definition session_effect_due :: "page \<Rightarrow> bool" where
  "session_effect_due p =
     (\<not> (isYoutubePlaying p = effect_playing p \<and> youtubeUrl p = effect_url p \<and>
         watchSessionStart p = effect_start p \<and> stats p = effect_stats p))"

text \<open>
  One run of the session effect at time \<open>now\<close>, in a render whose state is \<open>p\<close>. First
  the cleanup of the previous run: if the ref is set, it calls the \<open>endWatchSession\<close>
  captured by that run and clears the ref. Then the body, which reads the state of this
  render and calls this render's \<open>startWatchSession\<close> or \<open>endWatchSession\<close>. The state
  updates the callbacks queue are applied in the order of the calls.
\<close>

definition session_effect :: "int \<Rightarrow> page \<Rightarrow> page" where
  "session_effect now p =
     (let p1 = (if truthy (watchSessionStartTimeRef p)
                then (endWatchSession (effect_start p) (effect_stats p) now p)
                       \<lparr>watchSessionStartTimeRef := None\<rparr>
                else p);
          p2 = (if isYoutubePlaying p \<and> youtubeUrl p \<noteq> [] \<and>
                   \<not> truthy (watchSessionStartTimeRef p1)
                then (startWatchSession (watchSessionStart p) now p1)
                       \<lparr>watchSessionStartTimeRef := Some now\<rparr>
                else if \<not> isYoutubePlaying p \<and> truthy (watchSessionStartTimeRef p1)
                then (endWatchSession (watchSessionStart p) (stats p) now p1)
                       \<lparr>watchSessionStartTimeRef := None\<rparr>
                else p1)
      in p2\<lparr>effect_playing := isYoutubePlaying p, effect_url := youtubeUrl p,
            effect_start := watchSessionStart p, effect_stats := stats p\<rparr>)"

text \<open>
  Rendering until nothing changes: as long as a dependency has changed, the page
  renders again and the effect runs again; \<open>n\<close> bounds the number of renders.
\<close>

fun rerender :: "nat \<Rightarrow> int \<Rightarrow> page \<Rightarrow> page" where
  "rerender 0 now p = p"
| "rerender (Suc n) now p =
     (if session_effect_due p then rerender n now (session_effect now p) else p)"

text \<open>\<open>handlePause\<close> on a page that shows the player.\<close>

definition handlePause :: "page \<Rightarrow> page" where
  "handlePause p = p\<lparr>isYoutubePlaying := False\<rparr>"

text \<open>
  Playing on the page: the renders that follow the start of playback at \<open>t0\<close>, then
  the callback of the one-second interval at the times \<open>ticks\<close>, each followed by the
  renders it causes, then \<open>handlePause\<close> at \<open>t_end\<close> and the renders it causes.
\<close>

definition play_then_pause :: "int \<Rightarrow> int list \<Rightarrow> int \<Rightarrow> page \<Rightarrow> page" where
  "play_then_pause t0 ticks t_end p =
     rerender 4 t_end
       (handlePause
          (foldl (\<lambda>st t. rerender 4 t (watch_time_tick t st)) (rerender 4 t0 p) ticks))"

text \<open>
  A page on which a session runs since \<open>t0\<close>: the player shows a video and plays, the
  ref is set, and the session effect has run for the present state.
\<close>

definition session_running :: "int \<Rightarrow> page \<Rightarrow> bool" where
  "session_running t0 p =
     (watchSessionStart p = Some t0 \<and> t0 \<noteq> 0 \<and> isYoutubePlaying p \<and> youtubeUrl p \<noteq> [] \<and>
      truthy (watchSessionStartTimeRef p) \<and> \<not> session_effect_due p)"

text \<open>
  Times of interval callbacks that each come a full second or more after the start of the
  session then running, which is \<open>t\<close> for the first and the callback before for the others.
\<close>

fun spaced :: "int \<Rightarrow> int list \<Rightarrow> bool" where
  "spaced t [] = True"
| "spaced t (x # xs) = (t + 1000 \<le> x \<and> x \<noteq> 0 \<and> spaced x xs)"

subsection \<open>Discord connection\<close>

text \<open>
  \<open>handleDiscordConnect\<close> tracks the connection and then leaves the page for the OAuth
  URL; what outlives the navigation is the browser's storage.
\<close>

definition handleDiscordConnect :: "stats \<Rightarrow> app \<Rightarrow> app" where
  "handleDiscordConnect captured_stats s = trackDiscordConnection captured_stats s"

text \<open>The three query parameters of the redirect; \<open>None\<close> when a parameter is absent.\<close>

record url_params =
  username :: "string option"
  avatar :: "string option"
  userId :: "string option"

definition present :: "string option \<Rightarrow> bool" where
  "present p = (case p of None \<Rightarrow> False | Some v \<Rightarrow> v \<noteq> [])"

definition STORAGE_KEYS_USERNAME :: string where
  "STORAGE_KEYS_USERNAME = ''chatUsername''"

definition STORAGE_KEYS_DISCORD_AVATAR :: string where
  "STORAGE_KEYS_DISCORD_AVATAR = ''discordAvatar''"

definition STORAGE_KEYS_DISCORD_USER_ID :: string where
  "STORAGE_KEYS_DISCORD_USER_ID = ''discordUserId''"

text \<open>
  The part of the mount effect that handles the query parameters. It calls the
  \<open>trackDiscordConnection\<close> of the render that made the effect.
\<close>

definition url_params_effect :: "stats \<Rightarrow> url_params \<Rightarrow> app \<Rightarrow> app" where
  "url_params_effect captured_stats p s =
     (let s1 = (case username p of
                  Some u \<Rightarrow>
                    if u \<noteq> [] then
                      s\<lparr>chatUsername := sanitizeString u VALIDATION_MAX_MESSAGE_LENGTH,
                        browser := safeLocalStorageSet (browser s) STORAGE_KEYS_USERNAME
                          (JString (sanitizeString u VALIDATION_MAX_MESSAGE_LENGTH))\<rparr>
                    else s
                | None \<Rightarrow> s);
          s2 = (case avatar p of
                  Some a \<Rightarrow>
                    if a \<noteq> [] then
                      s1\<lparr>browser := safeLocalStorageSet (browser s1) STORAGE_KEYS_DISCORD_AVATAR
                          (JString (sanitizeString a VALIDATION_MAX_MESSAGE_LENGTH))\<rparr>
                    else s1
                | None \<Rightarrow> s1);
          s3 = (case userId p of
                  Some i \<Rightarrow>
                    if i \<noteq> [] then
                      s2\<lparr>browser := safeLocalStorageSet (browser s2) STORAGE_KEYS_DISCORD_USER_ID
                          (JString (sanitizeString i VALIDATION_MAX_MESSAGE_LENGTH))\<rparr>
                    else s2
                | None \<Rightarrow> s2)
      in if present (username p) \<and> present (avatar p) \<and> present (userId p)
         then trackDiscordConnection captured_stats (s3\<lparr>discordConnected := True\<rparr>)
         else s3)"

text \<open>
  Loading the page. The first render has the initial state, so the callbacks the mount
  effects call captured \<open>initial_stats\<close>. The effects run in the order in which the
  hooks are called: the hook's loading effect first, the query-parameter effect after
  it; the state updates they queue are applied in that order.
\<close>

definition page_load :: "browser \<Rightarrow> url_params \<Rightarrow> app" where
  "page_load b p = url_params_effect initial_stats p (load_saved_stats_effect (initial_app b))"

subsection \<open>Sample inputs\<close>

text \<open>A browser whose storage works and holds nothing.\<close>

definition fresh_browser :: browser where
  "fresh_browser =
     \<lparr>window_defined = True, storage_blocked = False, storage_full = False,
      localStorage = Map.empty\<rparr>"

text \<open>A page whose queue holds two videos, the first one selected and playing.\<close>

definition two_video_app :: app where
  "two_video_app =
     (initial_app fresh_browser)
       \<lparr>youtubeQueue := [''https://youtu.be/dQw4w9WgXcQ'', ''https://youtu.be/9bZkp7q19f0''],
        currentIndex := 0, isYoutubePlaying := True\<rparr>"

text \<open>A message carrying the ended event, from the given origin.\<close>

definition ended_message :: "string \<Rightarrow> message_event" where
  "ended_message from = \<lparr>origin = from, data = StringData (Json ended_event)\<rparr>"

text \<open>The query string of a page opened directly, and of a completed OAuth redirect.\<close>

definition no_params :: url_params where
  "no_params = \<lparr>username = None, avatar = None, userId = None\<rparr>"

definition oauth_params :: url_params where
  "oauth_params = \<lparr>username = Some ''zen'', avatar = Some ''a1b2c3'', userId = Some ''42''\<rparr>"

text \<open>The stat mapping of a returning user, and a browser that has it stored.\<close>

definition returning_stats :: stats where
  "returning_stats =
     \<lparr>discord_connections = 0, videos_added = 7, messages_sent = 12,
      watch_time = 5400, max_queue_size = 3, sessions_played = 4\<rparr>"

definition returning_browser :: browser where
  "returning_browser =
     safeLocalStorageSet fresh_browser STORAGE_KEYS_STATS (stats_object returning_stats)"

text \<open>
  A freshly mounted page on which a video has just been selected and set playing; the
  session effect last ran at mount, when nothing was playing.
\<close>

definition selected_page :: page where
  "selected_page =
     \<lparr>browser = fresh_browser, stats = initial_stats, unlockedAchievements = {},
      watchSessionStart = None,
      youtubeUrl = ''https://youtu.be/dQw4w9WgXcQ'', youtubeInput = [], urlError = [],
      isYoutubePlaying = True, discordConnected = False, chatUsername = [],
      youtubeQueue = [''https://youtu.be/dQw4w9WgXcQ''], currentIndex = 0,
      watchSessionStartTimeRef = None, effect_playing = False, effect_url = [],
      effect_start = None, effect_stats = initial_stats\<rparr>"

section \<open>Properties of the achievement evaluator\<close>

lemma or0_id: "or0 x = x"
  by (simp add: or0_def)

lemma loop_fst:
  "fst (foldl (unlock_step S) (nu, h, lg) ds) = nu \<union> id' ` {a \<in> set ds. shouldUnlock S a}"
  by (induction ds arbitrary: nu h lg) (auto simp: unlock_step_def)

lemma loop_log_set:
  "set (snd (snd (foldl (unlock_step S) (nu, h, lg) ds))) =
     set lg \<union> (id' ` {a \<in> set ds. shouldUnlock S a} - nu)"
  by (induction ds arbitrary: nu h lg) (auto simp: unlock_step_def)

lemma loop_flag:
  "fst (snd (foldl (unlock_step S) (nu, h, lg) ds)) =
     (h \<or> (\<exists>a \<in> set ds. shouldUnlock S a \<and> id' a \<notin> nu))"
  by (induction ds arbitrary: nu h lg) (auto simp: unlock_step_def)

lemma loop_log_distinct:
  "distinct lg \<Longrightarrow> set lg \<subseteq> nu \<Longrightarrow>
     distinct (snd (snd (foldl (unlock_step S) (nu, h, lg) ds)))"
proof (induction ds arbitrary: nu h lg)
  case Nil
  then show ?case by simp
next
  case (Cons a ds)
  show ?case
  proof (cases "id' a \<notin> nu \<and> shouldUnlock S a")
    case True
    have d: "distinct (lg @ [id' a])" using Cons.prems True by auto
    have s: "set (lg @ [id' a]) \<subseteq> insert (id' a) nu" using Cons.prems by auto
    from Cons.IH [OF d s] True show ?thesis by (simp add: unlock_step_def)
  next
    case False
    have "unlock_step S (nu, h, lg) a = (nu, h, lg)"
      using False by (auto simp: unlock_step_def)
    with Cons.IH [OF Cons.prems] show ?thesis by simp
  qed
qed

lemma checkAchievements_eq:
  "checkAchievements S U = U \<union> id' ` {a \<in> set ACHIEVEMENT_DEFINITIONS. shouldUnlock S a}"
proof -
  obtain nu h lg where r: "unlock_loop S U = (nu, h, lg)" by (cases "unlock_loop S U") auto
  have nu: "nu = U \<union> id' ` {a \<in> set ACHIEVEMENT_DEFINITIONS. shouldUnlock S a}"
    using loop_fst [of S U False "[]" ACHIEVEMENT_DEFINITIONS] r by (simp add: unlock_loop_def)
  have h: "h = (\<exists>a \<in> set ACHIEVEMENT_DEFINITIONS. shouldUnlock S a \<and> id' a \<notin> U)"
    using loop_flag [of S U False "[]" ACHIEVEMENT_DEFINITIONS] r by (simp add: unlock_loop_def)
  show ?thesis
  proof (cases h)
    case True
    then show ?thesis using r nu by (simp add: checkAchievements_def)
  next
    case False
    then have "id' ` {a \<in> set ACHIEVEMENT_DEFINITIONS. shouldUnlock S a} \<subseteq> U"
      using h by auto
    then show ?thesis using r False by (auto simp: checkAchievements_def)
  qed
qed

lemma evaluate_set:
  "set (evaluate S U) = id' ` {a \<in> set ACHIEVEMENT_DEFINITIONS. shouldUnlock S a} - U"
  using loop_log_set [of S U False "[]" ACHIEVEMENT_DEFINITIONS]
  by (simp add: evaluate_def unlock_loop_def)

lemma evaluate_distinct: "distinct (evaluate S U)"
  using loop_log_distinct [of "[]" U S False ACHIEVEMENT_DEFINITIONS]
  by (simp add: evaluate_def unlock_loop_def)

lemma evaluate_again: "evaluate S (checkAchievements S U) = []"
proof -
  have "set (evaluate S (checkAchievements S U)) = {}"
    unfolding evaluate_set checkAchievements_eq by auto
  then show ?thesis by simp
qed

lemma shouldUnlock_mono:
  "dominates S S' \<Longrightarrow> shouldUnlock S' a \<Longrightarrow> shouldUnlock S a"
  by (auto simp: dominates_def shouldUnlock_def or0_id split: if_splits)

lemma warming_up_listed: "warming_up \<in> set ACHIEVEMENT_DEFINITIONS"
  by (simp add: ACHIEVEMENT_DEFINITIONS_def warming_up_def)

lemma warming_up_unlock: "shouldUnlock S warming_up = (3600 \<le> watch_time S)"
  by (simp add: shouldUnlock_def warming_up_def or0_id)

lemma four_mem:
  assumes "3600 \<le> watch_time S" and "4 \<notin> U"
  shows "4 \<in> set (evaluate S U)"
proof -
  have "warming_up \<in> {a \<in> set ACHIEVEMENT_DEFINITIONS. shouldUnlock S a}"
    using assms(1) warming_up_listed warming_up_unlock by simp
  then have "id' warming_up \<in> id' ` {a \<in> set ACHIEVEMENT_DEFINITIONS. shouldUnlock S a}"
    by (rule imageI)
  moreover have "id' warming_up = 4" by (simp add: warming_up_def)
  ultimately show ?thesis using assms(2) by (simp add: evaluate_set)
qed

lemma check_evaluate: "checkAchievements S U = U \<union> set (evaluate S U)"
  by (auto simp: checkAchievements_eq evaluate_set)

lemma check_idem: "checkAchievements S (checkAchievements S U) = checkAchievements S U"
proof -
  have "checkAchievements S (checkAchievements S U) =
        checkAchievements S U \<union> set (evaluate S (checkAchievements S U))"
    by (rule check_evaluate)
  then show ?thesis by (simp add: evaluate_again)
qed

lemma count_list_distinct:
  "distinct xs \<Longrightarrow> count_list xs x = (if x \<in> set xs then 1 else 0)"
  by (induction xs) auto

text \<open>
  Claim C4. Evaluation is idempotent: a second run on the same stats, started from the
  unlocked set the first run produced, changes nothing and announces nothing, so the
  union of the unlocked set with the newly unlocked ids is the same after one run and
  after two. When \<open>watch_time\<close> has reached 3600 and id 4 was not unlocked before, the
  two runs together announce id 4 exactly once.
\<close>

theorem checkAchievements_idempotent:
  "checkAchievements S (checkAchievements S U) = checkAchievements S U \<and>
   evaluate S (checkAchievements S U) = [] \<and>
   U \<union> set (evaluate S U) =
     U \<union> set (evaluate S U) \<union> set (evaluate S (checkAchievements S U)) \<and>
   (3600 \<le> watch_time S \<and> 4 \<notin> U \<longrightarrow>
      4 \<in> checkAchievements S U \<and>
      count_list (evaluate S U @ evaluate S (checkAchievements S U)) 4 = 1)"
proof -
  have once: "count_list (evaluate S U @ evaluate S (checkAchievements S U)) 4 = 1"
    and mem: "4 \<in> checkAchievements S U"
    if "3600 \<le> watch_time S" "4 \<notin> U"
  proof -
    have m: "4 \<in> set (evaluate S U)" using that by (rule four_mem)
    then show "count_list (evaluate S U @ evaluate S (checkAchievements S U)) 4 = 1"
      by (simp add: evaluate_again count_list_distinct evaluate_distinct)
    show "4 \<in> checkAchievements S U" using m by (simp add: check_evaluate)
  qed
  show ?thesis
    using once mem by (simp add: check_idem evaluate_again)
qed

theorem checkAchievements_idempotent_witness:
  "3600 \<le> watch_time (initial_stats\<lparr>watch_time := 3600\<rparr>) \<and>
   4 \<notin> ({} :: int set) \<and>
   checkAchievements (initial_stats\<lparr>watch_time := 3600\<rparr>)
       (checkAchievements (initial_stats\<lparr>watch_time := 3600\<rparr>) {}) =
     checkAchievements (initial_stats\<lparr>watch_time := 3600\<rparr>) {} \<and>
   4 \<in> checkAchievements (initial_stats\<lparr>watch_time := 3600\<rparr>) {} \<and>
   count_list
     (evaluate (initial_stats\<lparr>watch_time := 3600\<rparr>) {} @
      evaluate (initial_stats\<lparr>watch_time := 3600\<rparr>)
        (checkAchievements (initial_stats\<lparr>watch_time := 3600\<rparr>) {})) 4 = 1"
  using checkAchievements_idempotent [of "initial_stats\<lparr>watch_time := 3600\<rparr>" "{}"]
  by (simp add: evaluate_again)

text \<open>
  Claim C5. Evaluation is monotone: when \<open>S\<close> dominates \<open>S'\<close> coordinate-wise, then
  from the same starting unlocked set every id a run on \<open>S'\<close> newly unlocks is also newly
  unlocked by a run on \<open>S\<close>, and the unlocked set after the run on \<open>S'\<close> is contained in
  the one after the run on \<open>S\<close>.
\<close>

theorem checkAchievements_monotone:
  assumes "dominates S S'"
  shows "set (evaluate S' U) \<subseteq> set (evaluate S U) \<and>
         checkAchievements S' U \<subseteq> checkAchievements S U"
proof -
  have "{a \<in> set ACHIEVEMENT_DEFINITIONS. shouldUnlock S' a} \<subseteq>
        {a \<in> set ACHIEVEMENT_DEFINITIONS. shouldUnlock S a}"
    using shouldUnlock_mono [OF assms] by blast
  then have "id' ` {a \<in> set ACHIEVEMENT_DEFINITIONS. shouldUnlock S' a} \<subseteq>
             id' ` {a \<in> set ACHIEVEMENT_DEFINITIONS. shouldUnlock S a}"
    by (rule image_mono)
  then show ?thesis
    unfolding evaluate_set checkAchievements_eq by blast
qed

theorem checkAchievements_monotone_witness:
  "dominates (initial_stats\<lparr>watch_time := 3600\<rparr>) initial_stats \<and>
   set (evaluate initial_stats {}) \<subseteq> set (evaluate (initial_stats\<lparr>watch_time := 3600\<rparr>) {}) \<and>
   checkAchievements initial_stats {} \<subseteq>
     checkAchievements (initial_stats\<lparr>watch_time := 3600\<rparr>) {}"
proof -
  have d: "dominates (initial_stats\<lparr>watch_time := 3600\<rparr>) initial_stats"
    by (simp add: dominates_def initial_stats_def)
  show ?thesis
    using d checkAchievements_monotone [OF d, of "{}"] by simp
qed

section \<open>Properties of the numeric clamp helper\<close>

lemmas parseFloat_eval =
  parseFloat_def unsigned_literal_def exponent_part_def times_pow10_def negate_def
  starts_with_def digits_value_def is_digit_def is_white_space_def Let_def

lemma parseFloat_one_and_a_half: "parseFloat ''1.5'' = Finite (3 / 2)"
  by (simp add: parseFloat_eval)

lemma parseFloat_abc: "parseFloat ''abc'' = NaN"
  by (simp add: parseFloat_eval)

lemma validateNumber_cases:
  "validateNumber v (Finite lo) (Finite hi) =
     (case parseFloat v of
        NaN \<Rightarrow> Finite lo
      | NegInfinity \<Rightarrow> Finite lo
      | Finite x \<Rightarrow> Finite (max lo (min hi x))
      | PosInfinity \<Rightarrow> Finite (max lo hi))"
  by (cases "parseFloat v") (simp_all add: validateNumber_def isNaN_def)

text \<open>
  Claim C9. For bounds \<open>lo \<le> hi\<close>: when the input does not parse (\<open>parseFloat\<close> gives
  \<open>NaN\<close>) the helper returns \<open>lo\<close>; when it parses to a finite number \<open>x\<close> the helper
  returns \<open>x\<close> clamped into \<open>[lo, hi]\<close>; an infinity is clamped to the bound on its side;
  the result always lies in \<open>[lo, hi]\<close>. With bounds \<open>[0, 1]\<close> the input \<open>1.5\<close> gives
  \<open>1\<close> and the input \<open>abc\<close> gives \<open>0\<close>.
\<close>

theorem validateNumber_clamps:
  assumes "lo \<le> hi"
  shows "(isNaN (parseFloat v) \<longrightarrow> validateNumber v (Finite lo) (Finite hi) = Finite lo) \<and>
         (\<forall>x. parseFloat v = Finite x \<longrightarrow>
              validateNumber v (Finite lo) (Finite hi) = Finite (max lo (min hi x))) \<and>
         (parseFloat v = PosInfinity \<longrightarrow>
              validateNumber v (Finite lo) (Finite hi) = Finite hi) \<and>
         (parseFloat v = NegInfinity \<longrightarrow>
              validateNumber v (Finite lo) (Finite hi) = Finite lo) \<and>
         (\<exists>r. validateNumber v (Finite lo) (Finite hi) = Finite r \<and> lo \<le> r \<and> r \<le> hi) \<and>
         validateNumber ''1.5'' (Finite 0) (Finite 1) = Finite 1 \<and>
         validateNumber ''abc'' (Finite 0) (Finite 1) = Finite 0"
proof -
  have general:
    "(isNaN (parseFloat v) \<longrightarrow> validateNumber v (Finite lo) (Finite hi) = Finite lo) \<and>
     (\<forall>x. parseFloat v = Finite x \<longrightarrow>
          validateNumber v (Finite lo) (Finite hi) = Finite (max lo (min hi x))) \<and>
     (parseFloat v = PosInfinity \<longrightarrow>
          validateNumber v (Finite lo) (Finite hi) = Finite hi) \<and>
     (parseFloat v = NegInfinity \<longrightarrow>
          validateNumber v (Finite lo) (Finite hi) = Finite lo) \<and>
     (\<exists>r. validateNumber v (Finite lo) (Finite hi) = Finite r \<and> lo \<le> r \<and> r \<le> hi)"
    using assms by (cases "parseFloat v") (simp_all add: validateNumber_cases isNaN_def)
  have a: "validateNumber ''1.5'' (Finite 0) (Finite 1) = Finite 1"
    by (simp add: validateNumber_cases parseFloat_one_and_a_half)
  have b: "validateNumber ''abc'' (Finite 0) (Finite 1) = Finite 0"
    by (simp add: validateNumber_cases parseFloat_abc)
  from general a b show ?thesis by simp
qed

theorem validateNumber_clamps_witness:
  "(0::real) \<le> 1 \<and>
   parseFloat ''0.25'' = Finite (1 / 4) \<and>
   validateNumber ''0.25'' (Finite 0) (Finite 1) = Finite (1 / 4) \<and>
   parseFloat ''-3'' = Finite (- 3) \<and>
   validateNumber ''-3'' (Finite 0) (Finite 1) = Finite 0 \<and>
   isNaN (parseFloat ''abc'') \<and>
   validateNumber ''abc'' (Finite 0) (Finite 1) = Finite 0 \<and>
   validateNumber ''1.5'' (Finite 0) (Finite 1) = Finite 1"
proof -
  have h: "(0::real) \<le> 1" by simp
  have p: "parseFloat ''0.25'' = Finite (1 / 4)" by (simp add: parseFloat_eval)
  have q: "parseFloat ''-3'' = Finite (- 3)" by (simp add: parseFloat_eval)
  have n: "isNaN (parseFloat ''abc'')" by (simp add: isNaN_def parseFloat_abc)
  show ?thesis
    using h p q n
      validateNumber_clamps [OF h, of "''0.25''"]
      validateNumber_clamps [OF h, of "''-3''"]
    by simp
qed

section \<open>Properties of the persistence helpers\<close>

lemma parse_stringify:
  "json_faithful v \<Longrightarrow> JSON_parse (JSON_stringify v) = Some v"
  by (simp add: json_faithful_def JSON_parse_def JSON_stringify_def)

text \<open>
  Claim C6, as amended. When the write goes through (\<open>window\<close> is defined, storage is
  neither blocked nor full) and the value survives \<open>JSON.stringify\<close> and \<open>JSON.parse\<close>
  unchanged, then loading the key after storing \<open>v\<close> under it returns \<open>v\<close>, for any
  default, when no validator is given or when the validator accepts \<open>v\<close>.
\<close>

theorem storage_roundtrip:
  assumes "window_defined b" and "\<not> storage_blocked b" and "\<not> storage_full b"
    and "json_faithful v"
    and "case validator of None \<Rightarrow> True | Some p \<Rightarrow> p v"
  shows "safeLocalStorageGet (safeLocalStorageSet b k v) k d validator = v"
  using assms
  by (cases validator)
     (simp_all add: safeLocalStorageGet_def safeLocalStorageSet_def safeJsonParse_def
        parse_stringify)

theorem storage_roundtrip_witness:
  "json_faithful (JNumber (Finite (1 / 2))) \<and>
   safeLocalStorageGet
     (safeLocalStorageSet
        \<lparr>window_defined = True, storage_blocked = False, storage_full = False,
         localStorage = Map.empty\<rparr>
        ''volume'' (JNumber (Finite (1 / 2))))
     ''volume'' (JNumber (Finite 1))
     (Some (\<lambda>x. case x of JNumber (Finite r) \<Rightarrow> 0 \<le> r \<and> r \<le> 1 | _ \<Rightarrow> False)) =
     JNumber (Finite (1 / 2))"
proof -
  have f: "json_faithful (JNumber (Finite (1 / 2)))"
    by (simp add: json_faithful_def)
  show ?thesis
    using f
      storage_roundtrip [of
        "\<lparr>window_defined = True, storage_blocked = False, storage_full = False,
          localStorage = Map.empty\<rparr>"
        "JNumber (Finite (1 / 2))"
        "Some (\<lambda>x. case x of JNumber (Finite r) \<Rightarrow> 0 \<le> r \<and> r \<le> 1 | _ \<Rightarrow> False)"
        "''volume''" "JNumber (Finite 1)"]
    by simp
qed

text \<open>
  Claim C6 as stated fails. First: \<open>NaN\<close> passes a validator that asks for a number,
  is stored as \<open>null\<close>, and the load returns the default. Second: with storage full the
  write is dropped and the load returns the default.
\<close>

theorem storage_roundtrip_counterexample:
  "typeof (JNumber NaN) = ''number'' \<and>
   safeLocalStorageGet
     (safeLocalStorageSet
        \<lparr>window_defined = True, storage_blocked = False, storage_full = False,
         localStorage = Map.empty\<rparr>
        ''watch_session_start'' (JNumber NaN))
     ''watch_session_start'' JNull
     (Some (\<lambda>x. typeof x = ''string'' \<or> typeof x = ''number'')) = JNull \<and>
   JNull \<noteq> JNumber NaN \<and>
   safeLocalStorageGet
     (safeLocalStorageSet
        \<lparr>window_defined = True, storage_blocked = False, storage_full = True,
         localStorage = Map.empty\<rparr>
        ''volume'' (JNumber (Finite (1 / 2))))
     ''volume'' (JNumber (Finite 1))
     (Some (\<lambda>x. typeof x = ''number'')) = JNumber (Finite 1) \<and>
   JNumber (Finite 1) \<noteq> JNumber (Finite (1 / 2))"
  by (simp add: safeLocalStorageGet_def safeLocalStorageSet_def safeJsonParse_def
      JSON_parse_def JSON_stringify_def typeof_def)

section \<open>Properties of the watch-session tracker\<close>

lemma tick_start: "watchSessionStart (watch_time_tick t s) = watchSessionStart s"
  by (simp add: watch_time_tick_def Let_def split: option.splits)

lemma tick_watch_time:
  "watchSessionStart s = Some t0 \<Longrightarrow> t0 \<noteq> 0 \<Longrightarrow>
   watch_time (stats (watch_time_tick t s)) =
     watch_time (stats s) + (if 0 < (t - t0) div 1000 then 1 else 0)"
  by (simp add: watch_time_tick_def Let_def or0_id)

lemma tick_sessions_played:
  "sessions_played (stats (watch_time_tick t s)) = sessions_played (stats s)"
  by (simp add: watch_time_tick_def Let_def split: option.splits)

lemma end_watch_time:
  "watch_time (stats (endWatchSession (watchSessionStart s) (stats s) t s)) = watch_time (stats s)"
  by (simp add: endWatchSession_def saveStats_def Let_def split: option.splits)

lemma end_sessions_played:
  "watchSessionStart s = Some t0 \<Longrightarrow> t0 \<noteq> 0 \<Longrightarrow>
   sessions_played (stats (endWatchSession (watchSessionStart s) (stats s) t s)) =
     sessions_played (stats s) + (if 0 < (t - t0) div 1000 then 1 else 0)"
  by (simp add: endWatchSession_def saveStats_def Let_def or0_id)

lemma end_idle:
  "watchSessionStart s = Some t0 \<Longrightarrow> t0 \<noteq> 0 \<Longrightarrow>
   watchSessionStart (endWatchSession (watchSessionStart s) (stats s) t s) = None"
  by (simp add: endWatchSession_def saveStats_def Let_def)

lemma start_running:
  "watchSessionStart s = None \<Longrightarrow>
   watchSessionStart (startWatchSession (watchSessionStart s) t0 s) = Some t0 \<and>
   stats (startWatchSession (watchSessionStart s) t0 s) = stats s"
  by (simp add: startWatchSession_def truthy_def)

subsection \<open>The session effect of the page\<close>

text \<open>
  One run of the session effect, case by case; then the renders after the start of
  playback, after a counted callback of the interval, and after a pause.
\<close>

lemma rerender_done: "\<not> session_effect_due p \<Longrightarrow> rerender n now p = p"
  by (cases n) simp_all

lemma rerender_step:
  "session_effect_due p \<Longrightarrow> rerender (Suc n) now p = rerender n now (session_effect now p)"
  by simp

text \<open>What a run of the effect always does.\<close>

lemma session_effect_frame:
  "isYoutubePlaying (session_effect now p) = isYoutubePlaying p"
  "youtubeUrl (session_effect now p) = youtubeUrl p"
  "effect_playing (session_effect now p) = isYoutubePlaying p"
  "effect_url (session_effect now p) = youtubeUrl p"
  "effect_start (session_effect now p) = watchSessionStart p"
  "effect_stats (session_effect now p) = stats p"
  by (simp_all add: session_effect_def Let_def endWatchSession_def startWatchSession_def
      saveStats_def split: option.splits)

lemma cleanup_closes:
  assumes "truthy (watchSessionStartTimeRef p)"
    and "effect_start p = Some t0" and "t0 \<noteq> 0" and "t0 + 1000 \<le> now" and "now \<noteq> 0"
    and "isYoutubePlaying p" and "youtubeUrl p \<noteq> []"
  shows "stats (session_effect now p) =
           (effect_stats p)\<lparr>sessions_played := sessions_played (effect_stats p) + 1\<rparr>"
    and "watchSessionStart (session_effect now p) =
           (if truthy (watchSessionStart p) then None else Some now)"
    and "watchSessionStartTimeRef (session_effect now p) = Some now"
proof -
  have w: "0 < (now - t0) div 1000"
    using assms(4) by (simp add: pos_imp_zdiv_pos_iff)
  show "stats (session_effect now p) =
           (effect_stats p)\<lparr>sessions_played := sessions_played (effect_stats p) + 1\<rparr>"
    using assms(1,2,3,5,6,7) w
    by (simp add: session_effect_def Let_def endWatchSession_def startWatchSession_def
        saveStats_def truthy_def or0_id)
  show "watchSessionStart (session_effect now p) =
           (if truthy (watchSessionStart p) then None else Some now)"
    using assms(1,2,3,5,6,7) w
    by (simp add: session_effect_def Let_def endWatchSession_def startWatchSession_def
        saveStats_def truthy_def or0_id)
  show "watchSessionStartTimeRef (session_effect now p) = Some now"
    using assms(1,2,3,5,6,7) w
    by (simp add: session_effect_def Let_def endWatchSession_def startWatchSession_def
        saveStats_def truthy_def or0_id)
qed

lemma cleanup_idle:
  assumes "truthy (watchSessionStartTimeRef p)"
    and "effect_start p = None" and "truthy (watchSessionStart p)" and "now \<noteq> 0"
    and "isYoutubePlaying p" and "youtubeUrl p \<noteq> []"
  shows "stats (session_effect now p) = stats p"
    and "watchSessionStart (session_effect now p) = watchSessionStart p"
    and "watchSessionStartTimeRef (session_effect now p) = Some now"
  using assms
  by (simp_all add: session_effect_def Let_def endWatchSession_def startWatchSession_def
      truthy_def)

lemma body_starts:
  assumes "\<not> truthy (watchSessionStartTimeRef p)" and "watchSessionStart p = None"
    and "isYoutubePlaying p" and "youtubeUrl p \<noteq> []"
  shows "stats (session_effect now p) = stats p"
    and "watchSessionStart (session_effect now p) = Some now"
    and "watchSessionStartTimeRef (session_effect now p) = Some now"
  using assms
  by (simp_all add: session_effect_def Let_def startWatchSession_def truthy_def)

lemma tick_frame:
  "isYoutubePlaying (watch_time_tick t p) = isYoutubePlaying p"
  "youtubeUrl (watch_time_tick t p) = youtubeUrl p"
  "watchSessionStartTimeRef (watch_time_tick t p) = watchSessionStartTimeRef p"
  "effect_playing (watch_time_tick t p) = effect_playing p"
  "effect_url (watch_time_tick t p) = effect_url p"
  "effect_start (watch_time_tick t p) = effect_start p"
  "effect_stats (watch_time_tick t p) = effect_stats p"
  by (simp_all add: watch_time_tick_def Let_def split: option.splits)

lemma tick_stats:
  "watchSessionStart p = Some t0 \<Longrightarrow> t0 \<noteq> 0 \<Longrightarrow> t0 + 1000 \<le> t \<Longrightarrow>
   stats (watch_time_tick t p) = (stats p)\<lparr>watch_time := watch_time (stats p) + 1\<rparr>"
  by (simp add: watch_time_tick_def Let_def or0_id pos_imp_zdiv_pos_iff)

lemma playing_starts_session:
  assumes "watchSessionStart p = None" and "\<not> truthy (watchSessionStartTimeRef p)"
    and "isYoutubePlaying p" and "youtubeUrl p \<noteq> []" and "session_effect_due p"
    and "t0 \<noteq> 0"
  shows "session_running t0 (rerender 4 t0 p) \<and> stats (rerender 4 t0 p) = stats p"
proof -
  define q1 where "q1 = session_effect t0 p"
  define q2 where "q2 = session_effect t0 q1"
  have f1: "isYoutubePlaying q1" "youtubeUrl q1 \<noteq> []" "effect_playing q1 = isYoutubePlaying q1"
    "effect_url q1 = youtubeUrl q1" "effect_start q1 = None" "effect_stats q1 = stats p"
    using assms by (simp_all add: q1_def session_effect_frame)
  have s1: "stats q1 = stats p" "watchSessionStart q1 = Some t0"
    "watchSessionStartTimeRef q1 = Some t0"
    unfolding q1_def using body_starts [OF assms(2,1,3,4)] by simp_all
  have d1: "session_effect_due q1"
    using f1 s1 by (simp add: session_effect_due_def)
  have r1: "truthy (watchSessionStartTimeRef q1)" "truthy (watchSessionStart q1)"
    using s1 assms(6) by (simp_all add: truthy_def)
  have s2: "stats q2 = stats p" "watchSessionStart q2 = Some t0"
    "watchSessionStartTimeRef q2 = Some t0"
    unfolding q2_def
    using cleanup_idle [OF r1(1) f1(5) r1(2) assms(6) f1(1) f1(2)] s1 by simp_all
  have f2: "isYoutubePlaying q2" "youtubeUrl q2 \<noteq> []" "effect_playing q2 = isYoutubePlaying q2"
    "effect_url q2 = youtubeUrl q2" "effect_start q2 = Some t0" "effect_stats q2 = stats p"
    using f1 s1 by (simp_all add: q2_def session_effect_frame)
  have d2: "\<not> session_effect_due q2"
    using f2 s2 by (simp add: session_effect_due_def)
  have "rerender 4 t0 p = rerender 3 t0 q1"
    using rerender_step [OF assms(5), of 3 t0] by (simp add: q1_def)
  also have "\<dots> = rerender 2 t0 q2"
    using rerender_step [OF d1, of 2 t0] by (simp add: q2_def numeral_3_eq_3 numeral_2_eq_2)
  also have "\<dots> = q2"
    using d2 by (rule rerender_done)
  finally have e: "rerender 4 t0 p = q2" .
  show ?thesis
    unfolding e using s2 f2 d2 assms(6) by (simp add: session_running_def truthy_def)
qed

lemma counted_tick_ends_session:
  assumes "session_running t0 p" and "t0 + 1000 \<le> t" and "t \<noteq> 0"
  shows "session_running t (rerender 4 t (watch_time_tick t p)) \<and>
         stats (rerender 4 t (watch_time_tick t p)) =
           (stats p)\<lparr>watch_time := watch_time (stats p) + 1,
                     sessions_played := sessions_played (stats p) + 1\<rparr>"
proof -
  have p: "watchSessionStart p = Some t0" "t0 \<noteq> 0" "isYoutubePlaying p" "youtubeUrl p \<noteq> []"
    "truthy (watchSessionStartTimeRef p)" "effect_playing p = isYoutubePlaying p"
    "effect_url p = youtubeUrl p" "effect_start p = Some t0" "effect_stats p = stats p"
    using assms(1) by (auto simp: session_running_def session_effect_due_def)
  define q0 where "q0 = watch_time_tick t p"
  define q1 where "q1 = session_effect t q0"
  define q2 where "q2 = session_effect t q1"
  define q3 where "q3 = session_effect t q2"
  have s0: "stats q0 = (stats p)\<lparr>watch_time := watch_time (stats p) + 1\<rparr>"
    "watchSessionStart q0 = Some t0"
    unfolding q0_def using tick_stats [OF p(1,2) assms(2)] p(1) by (simp_all add: tick_start)
  have f0: "isYoutubePlaying q0" "youtubeUrl q0 \<noteq> []" "truthy (watchSessionStartTimeRef q0)"
    "effect_playing q0 = isYoutubePlaying q0" "effect_url q0 = youtubeUrl q0"
    "effect_start q0 = Some t0" "effect_stats q0 = stats p"
    using p by (simp_all add: q0_def tick_frame)
  have "watch_time (stats q0) \<noteq> watch_time (stats p)"
    by (simp add: s0)
  then have "stats q0 \<noteq> effect_stats q0"
    using f0(7) by auto
  then have d0: "session_effect_due q0"
    by (simp add: session_effect_due_def)
  have s1: "stats q1 = (stats p)\<lparr>sessions_played := sessions_played (stats p) + 1\<rparr>"
    "watchSessionStart q1 = None" "watchSessionStartTimeRef q1 = Some t"
    unfolding q1_def
    using cleanup_closes [OF f0(3) f0(6) p(2) assms(2,3) f0(1,2)] f0(7) s0(2) p(2)
    by (simp_all add: truthy_def)
  have f1: "isYoutubePlaying q1" "youtubeUrl q1 \<noteq> []" "effect_playing q1 = isYoutubePlaying q1"
    "effect_url q1 = youtubeUrl q1" "effect_start q1 = Some t0" "effect_stats q1 = stats q0"
    using f0 s0 by (simp_all add: q1_def session_effect_frame)
  have d1: "session_effect_due q1"
    using f1 s1 by (simp add: session_effect_due_def)
  have r1: "truthy (watchSessionStartTimeRef q1)"
    using s1 assms(3) by (simp add: truthy_def)
  have s2: "stats q2 = (stats q0)\<lparr>sessions_played := sessions_played (stats q0) + 1\<rparr>"
    "watchSessionStart q2 = Some t" "watchSessionStartTimeRef q2 = Some t"
    unfolding q2_def
    using cleanup_closes [OF r1 f1(5) p(2) assms(2,3) f1(1,2)] f1(6) s1(2)
    by (simp_all add: truthy_def)
  have f2: "isYoutubePlaying q2" "youtubeUrl q2 \<noteq> []" "effect_playing q2 = isYoutubePlaying q2"
    "effect_url q2 = youtubeUrl q2" "effect_start q2 = None" "effect_stats q2 = stats q1"
    using f1 s1 by (simp_all add: q2_def session_effect_frame)
  have d2: "session_effect_due q2"
    using f2 s2 by (simp add: session_effect_due_def)
  have r2: "truthy (watchSessionStartTimeRef q2)" "truthy (watchSessionStart q2)"
    using s2 assms(3) by (simp_all add: truthy_def)
  have s3: "stats q3 = stats q2" "watchSessionStart q3 = Some t"
    "watchSessionStartTimeRef q3 = Some t"
    unfolding q3_def
    using cleanup_idle [OF r2(1) f2(5) r2(2) assms(3) f2(1,2)] s2 by simp_all
  have f3: "isYoutubePlaying q3" "youtubeUrl q3 \<noteq> []" "effect_playing q3 = isYoutubePlaying q3"
    "effect_url q3 = youtubeUrl q3" "effect_start q3 = Some t" "effect_stats q3 = stats q2"
    using f2 s2 by (simp_all add: q3_def session_effect_frame)
  have d3: "\<not> session_effect_due q3"
    using f3 s3 by (simp add: session_effect_due_def)
  have "rerender 4 t q0 = rerender 3 t q1"
    using rerender_step [OF d0, of 3 t] by (simp add: q1_def)
  also have "\<dots> = rerender 2 t q2"
    using rerender_step [OF d1, of 2 t] by (simp add: q2_def numeral_3_eq_3 numeral_2_eq_2)
  also have "\<dots> = rerender 1 t q3"
    using rerender_step [OF d2, of 1 t] by (simp add: q3_def numeral_2_eq_2)
  also have "\<dots> = q3"
    using d3 by (rule rerender_done)
  finally have e: "rerender 4 t (watch_time_tick t p) = q3"
    by (simp add: q0_def)
  have st: "stats q3 = (stats p)\<lparr>watch_time := watch_time (stats p) + 1,
                     sessions_played := sessions_played (stats p) + 1\<rparr>"
    by (simp add: s3 s2 s0)
  show ?thesis
    unfolding e using s3 f3 d3 st assms(3) by (simp add: session_running_def truthy_def)
qed

lemma pause_frame:
  "stats (handlePause p) = stats p"
  "watchSessionStart (handlePause p) = watchSessionStart p"
  "youtubeUrl (handlePause p) = youtubeUrl p"
  "\<not> isYoutubePlaying (handlePause p)"
  "watchSessionStartTimeRef (handlePause p) = watchSessionStartTimeRef p"
  "effect_playing (handlePause p) = effect_playing p"
  "effect_url (handlePause p) = effect_url p"
  "effect_start (handlePause p) = effect_start p"
  "effect_stats (handlePause p) = effect_stats p"
  by (simp_all add: handlePause_def)

lemma cleanup_on_pause:
  assumes "truthy (watchSessionStartTimeRef p)"
    and "effect_start p = Some t0" and "t0 \<noteq> 0" and "\<not> isYoutubePlaying p"
  shows "stats (session_effect now p) =
           (if 0 < (now - t0) div 1000
            then (effect_stats p)\<lparr>sessions_played := sessions_played (effect_stats p) + 1\<rparr>
            else stats p)"
    and "watchSessionStart (session_effect now p) = None"
    and "watchSessionStartTimeRef (session_effect now p) = None"
  using assms
  by (simp_all add: session_effect_def Let_def endWatchSession_def saveStats_def truthy_def or0_id)

lemma settled_pass:
  assumes "\<not> truthy (watchSessionStartTimeRef p)" and "\<not> isYoutubePlaying p"
  shows "stats (session_effect now p) = stats p"
    and "watchSessionStart (session_effect now p) = watchSessionStart p"
    and "watchSessionStartTimeRef (session_effect now p) = watchSessionStartTimeRef p"
  using assms by (simp_all add: session_effect_def Let_def)

lemma pause_ends_session:
  assumes "session_running t0 p"
  shows "stats (rerender 4 t_end (handlePause p)) =
           (if 0 < (t_end - t0) div 1000
            then (stats p)\<lparr>sessions_played := sessions_played (stats p) + 1\<rparr>
            else stats p) \<and>
         watchSessionStart (rerender 4 t_end (handlePause p)) = None \<and>
         \<not> session_effect_due (rerender 4 t_end (handlePause p))"
proof -
  have p: "watchSessionStart p = Some t0" "t0 \<noteq> 0" "isYoutubePlaying p" "youtubeUrl p \<noteq> []"
    "truthy (watchSessionStartTimeRef p)" "effect_playing p = isYoutubePlaying p"
    "effect_url p = youtubeUrl p" "effect_start p = Some t0" "effect_stats p = stats p"
    using assms(1) by (auto simp: session_running_def session_effect_due_def)
  define q0 where "q0 = handlePause p"
  define q1 where "q1 = session_effect t_end q0"
  define q2 where "q2 = session_effect t_end q1"
  have f0: "\<not> isYoutubePlaying q0" "truthy (watchSessionStartTimeRef q0)"
    "effect_playing q0" "effect_start q0 = Some t0" "effect_stats q0 = stats p"
    "stats q0 = stats p" "watchSessionStart q0 = Some t0"
    using p by (simp_all add: q0_def pause_frame)
  have d0: "session_effect_due q0"
    using f0 by (simp add: session_effect_due_def)
  have s1: "stats q1 = (if 0 < (t_end - t0) div 1000
            then (stats p)\<lparr>sessions_played := sessions_played (stats p) + 1\<rparr>
            else stats p)"
    "watchSessionStart q1 = None" "watchSessionStartTimeRef q1 = None"
    unfolding q1_def using cleanup_on_pause [OF f0(2) f0(4) p(2) f0(1)] f0(5,6) by simp_all
  have f1: "\<not> isYoutubePlaying q1" "effect_playing q1 = isYoutubePlaying q1"
    "effect_url q1 = youtubeUrl q1" "effect_start q1 = Some t0"
    using f0 by (simp_all add: q1_def session_effect_frame)
  have d1: "session_effect_due q1"
    using f1 s1 by (simp add: session_effect_due_def)
  have r1: "\<not> truthy (watchSessionStartTimeRef q1)"
    using s1 by (simp add: truthy_def)
  have s2: "stats q2 = stats q1" "watchSessionStart q2 = None"
    unfolding q2_def using settled_pass [OF r1 f1(1)] s1 by simp_all
  have f2: "effect_playing q2 = isYoutubePlaying q2"
    "effect_url q2 = youtubeUrl q2" "effect_start q2 = None" "effect_stats q2 = stats q1"
    using s1 by (simp_all add: q2_def session_effect_frame)
  have d2: "\<not> session_effect_due q2"
    using f2 s2 by (simp add: session_effect_due_def)
  have "rerender 4 t_end q0 = rerender 3 t_end q1"
    using rerender_step [OF d0, of 3 t_end] by (simp add: q1_def)
  also have "\<dots> = rerender 2 t_end q2"
    using rerender_step [OF d1, of 2 t_end] by (simp add: q2_def numeral_3_eq_3 numeral_2_eq_2)
  also have "\<dots> = q2"
    using d2 by (rule rerender_done)
  finally have e: "rerender 4 t_end (handlePause p) = q2"
    by (simp add: q0_def)
  show ?thesis
    unfolding e using s2 s1 d2 by simp
qed

lemma counted_ticks_end_sessions:
  "session_running t0 p \<Longrightarrow> spaced t0 ticks \<Longrightarrow>
   session_running (last (t0 # ticks))
     (foldl (\<lambda>st t. rerender 4 t (watch_time_tick t st)) p ticks) \<and>
   stats (foldl (\<lambda>st t. rerender 4 t (watch_time_tick t st)) p ticks) =
     (stats p)\<lparr>watch_time := watch_time (stats p) + int (length ticks),
               sessions_played := sessions_played (stats p) + int (length ticks)\<rparr>"
proof (induction ticks arbitrary: t0 p)
  case Nil
  then show ?case by simp
next
  case (Cons t ticks)
  let ?q = "rerender 4 t (watch_time_tick t p)"
  from Cons.prems have t: "t0 + 1000 \<le> t" "t \<noteq> 0" "spaced t ticks"
    by simp_all
  from counted_tick_ends_session [OF Cons.prems(1) t(1,2)]
  have q: "session_running t ?q"
    "stats ?q = (stats p)\<lparr>watch_time := watch_time (stats p) + 1,
                     sessions_played := sessions_played (stats p) + 1\<rparr>"
    by simp_all
  from Cons.IH [OF q(1) t(3)] q(2) show ?case
    by simp
qed

lemma selected_page_facts:
  "watchSessionStart selected_page = None"
  "\<not> truthy (watchSessionStartTimeRef selected_page)"
  "isYoutubePlaying selected_page"
  "youtubeUrl selected_page \<noteq> []"
  "session_effect_due selected_page"
  "stats selected_page = initial_stats"
  by (simp_all add: selected_page_def truthy_def session_effect_due_def)

text \<open>
  Claim C1 against the code. On a fresh page the selected video starts to play at
  1730556000000, the one-second interval calls back four times, each a little more than
  a second after the one before, and the user pauses 484 ms after the last callback.
  The four callbacks add 4 to \<open>watch_time\<close>, and closing adds nothing to it. But
  \<open>sessions_played\<close> is 4 as well, not 1: each counted callback changes \<open>stats\<close>, which
  makes a new \<open>endWatchSession\<close> and so re-runs the session effect of the page, whose
  cleanup ends the running session and whose body starts another. The pause itself then
  ends a session of less than a second, which counts for nothing.
\<close>

theorem page_session_counts_every_tick:
  "watch_time (stats (play_then_pause 1730556000000
       [1730556001004, 1730556002008, 1730556003012, 1730556004016] 1730556004500
       selected_page)) = 4 \<and>
   sessions_played (stats (play_then_pause 1730556000000
       [1730556001004, 1730556002008, 1730556003012, 1730556004016] 1730556004500
       selected_page)) = 4 \<and>
   watchSessionStart (play_then_pause 1730556000000
       [1730556001004, 1730556002008, 1730556003012, 1730556004016] 1730556004500
       selected_page) = None"
proof -
  let ?ticks = "[1730556001004, 1730556002008, 1730556003012, 1730556004016] :: int list"
  let ?p0 = "rerender 4 1730556000000 selected_page"
  let ?p1 = "foldl (\<lambda>st t. rerender 4 t (watch_time_tick t st)) ?p0 ?ticks"
  have a: "session_running 1730556000000 ?p0" "stats ?p0 = initial_stats"
    using playing_starts_session [of selected_page 1730556000000]
    by (simp_all add: selected_page_facts)
  have sp: "spaced 1730556000000 ?ticks"
    by simp
  from counted_ticks_end_sessions [OF a(1) sp]
  have b: "session_running 1730556004016 ?p1"
    "stats ?p1 = initial_stats\<lparr>watch_time := 4, sessions_played := 4\<rparr>"
    by (simp_all add: a(2) initial_stats_def)
  from pause_ends_session [OF b(1), of 1730556004500] b(2)
  show ?thesis
    by (simp add: play_then_pause_def)
qed

section \<open>Properties of the player bridge\<close>

lemma evil_origin: "\<not> isValidYoutubeOrigin ''https://evil.example''"
  by (simp add: isValidYoutubeOrigin_def YOUTUBE_CONFIG_ALLOWED_ORIGINS_def)

lemma youtube_origin: "isValidYoutubeOrigin ''https://www.youtube.com''"
  by (simp add: isValidYoutubeOrigin_def YOUTUBE_CONFIG_ALLOWED_ORIGINS_def)

lemma handleMessage_dropped:
  "\<not> isValidYoutubeOrigin (origin ev) \<Longrightarrow> handleMessage ev s = s"
  by (simp add: handleMessage_def split: message_data.splits)

text \<open>
  Claim C2. A message whose origin is not on the allow-list leaves the whole state as
  it was, whatever it carries; hence the state after the handler is the same for any
  two such messages. In particular the ended event sent from
  \<open>https://evil.example\<close> changes nothing.
\<close>

theorem handleMessage_untrusted_origin:
  "(\<not> isValidYoutubeOrigin (origin ev) \<longrightarrow> handleMessage ev s = s) \<and>
   (\<not> isValidYoutubeOrigin (origin ev) \<and> \<not> isValidYoutubeOrigin (origin ev') \<longrightarrow>
      handleMessage ev s = handleMessage ev' s) \<and>
   handleMessage (ended_message ''https://evil.example'') s = s"
proof -
  have "handleMessage (ended_message ''https://evil.example'') s = s"
    by (rule handleMessage_dropped) (simp add: ended_message_def evil_origin)
  then show ?thesis by (simp add: handleMessage_dropped)
qed

theorem handleMessage_untrusted_origin_witness:
  "\<not> isValidYoutubeOrigin (origin (ended_message ''https://evil.example'')) \<and>
   handleMessage (ended_message ''https://evil.example'') two_video_app = two_video_app \<and>
   currentIndex (handleMessage (ended_message ''https://evil.example'') two_video_app) = 0 \<and>
   isYoutubePlaying (handleMessage (ended_message ''https://evil.example'') two_video_app)"
proof -
  have o: "\<not> isValidYoutubeOrigin (origin (ended_message ''https://evil.example''))"
    by (simp add: ended_message_def evil_origin)
  have "handleMessage (ended_message ''https://evil.example'') two_video_app = two_video_app"
    using o handleMessage_untrusted_origin
      [of "ended_message ''https://evil.example''" two_video_app] by simp
  then show ?thesis
    using o by (simp add: two_video_app_def)
qed

section \<open>Properties of the queue controller\<close>

lemma handleMessage_ended:
  assumes "isValidYoutubeOrigin (origin ev)" and "data ev = StringData (Json d)"
    and "get_property d ''event'' = Some (JString ''onStateChange'')"
    and "get_property d ''info'' = Some (JNumber (Finite 0))"
  shows "handleMessage ev s =
           (if currentIndex s + 1 < int (length (youtubeQueue s))
            then s\<lparr>currentIndex := currentIndex s + 1\<rparr>
            else s\<lparr>isYoutubePlaying := False\<rparr>)"
  using assms by (simp add: handleMessage_def JSON_parse_def)

text \<open>
  Claim C8. Let \<open>currentIndex\<close> be at least 0, and let \<open>ev\<close> be an ended event
  (\<open>onStateChange\<close> with \<open>info\<close> 0) from an allowed origin. If there is a next video,
  \<open>handleNext\<close> and the ended event both move \<open>currentIndex\<close> one step; \<open>handleNext\<close>
  sets \<open>isYoutubePlaying\<close>, the ended event leaves it as it was (so a playing page keeps
  playing), and the effect that plays the selected video sets it. Otherwise both clear
  \<open>isYoutubePlaying\<close> and leave \<open>currentIndex\<close> where it was. The queue is never
  changed.
\<close>

theorem advance_bounds:
  assumes "0 \<le> currentIndex s"
    and "isValidYoutubeOrigin (origin ev)" and "data ev = StringData (Json d)"
    and "get_property d ''event'' = Some (JString ''onStateChange'')"
    and "get_property d ''info'' = Some (JNumber (Finite 0))"
  shows "(currentIndex s + 1 < int (length (youtubeQueue s)) \<longrightarrow>
            currentIndex (handleNext s) = currentIndex s + 1 \<and>
            isYoutubePlaying (handleNext s) \<and>
            currentIndex (handleMessage ev s) = currentIndex s + 1 \<and>
            isYoutubePlaying (handleMessage ev s) = isYoutubePlaying s \<and>
            isYoutubePlaying (play_from_queue_effect (handleMessage ev s)) \<and>
            currentIndex (play_from_queue_effect (handleMessage ev s)) = currentIndex s + 1) \<and>
         (\<not> currentIndex s + 1 < int (length (youtubeQueue s)) \<longrightarrow>
            currentIndex (handleNext s) = currentIndex s \<and>
            \<not> isYoutubePlaying (handleNext s) \<and>
            currentIndex (handleMessage ev s) = currentIndex s \<and>
            \<not> isYoutubePlaying (handleMessage ev s)) \<and>
         youtubeQueue (handleNext s) = youtubeQueue s \<and>
         youtubeQueue (handleMessage ev s) = youtubeQueue s"
  using assms(1)
  by (simp add: handleMessage_ended [OF assms(2-5)] handleNext_def play_from_queue_effect_def)

theorem advance_bounds_witness:
  "currentIndex (handleNext two_video_app) = 1 \<and>
   isYoutubePlaying (handleNext two_video_app) \<and>
   currentIndex (handleMessage (ended_message ''https://www.youtube.com'') two_video_app) = 1 \<and>
   isYoutubePlaying (handleMessage (ended_message ''https://www.youtube.com'') two_video_app) \<and>
   currentIndex (handleNext (handleNext two_video_app)) = 1 \<and>
   \<not> isYoutubePlaying (handleNext (handleNext two_video_app)) \<and>
   currentIndex (handleMessage (ended_message ''https://www.youtube.com'')
                   (handleNext two_video_app)) = 1 \<and>
   \<not> isYoutubePlaying (handleMessage (ended_message ''https://www.youtube.com'')
                          (handleNext two_video_app))"
proof -
  let ?ev = "ended_message ''https://www.youtube.com''"
  have o: "isValidYoutubeOrigin (origin ?ev)"
    by (simp add: ended_message_def youtube_origin)
  have d: "data ?ev = StringData (Json ended_event)"
    by (simp add: ended_message_def)
  have e: "get_property ended_event ''event'' = Some (JString ''onStateChange'')"
    by (simp add: ended_event_def get_property_def)
  have i: "get_property ended_event ''info'' = Some (JNumber (Finite 0))"
    by (simp add: ended_event_def get_property_def)
  have a: "0 \<le> currentIndex two_video_app"
    by (simp add: two_video_app_def)
  have n: "currentIndex (handleNext two_video_app) = 1"
    "youtubeQueue (handleNext two_video_app) = youtubeQueue two_video_app"
    "length (youtubeQueue two_video_app) = 2" "currentIndex two_video_app = 0"
    "isYoutubePlaying two_video_app"
    by (simp_all add: two_video_app_def handleNext_def)
  have b: "0 \<le> currentIndex (handleNext two_video_app)"
    using n by simp
  show ?thesis
    using advance_bounds [OF a o d e i] advance_bounds [OF b o d e i] n
    by simp
qed

lemma indexOf_bound: "x \<in> set xs \<Longrightarrow> indexOf xs x < int (length xs)"
proof -
  assume "x \<in> set xs"
  then have "length (takeWhile (\<lambda>y. y \<noteq> x) xs) < length xs"
    by (induction xs) auto
  then show ?thesis by (simp add: indexOf_def)
qed

lemma indexOf_cases: "indexOf xs x = - 1 \<or> (0 \<le> indexOf xs x \<and> indexOf xs x < int (length xs))"
  using indexOf_bound [of x xs] by (simp add: indexOf_def)

text \<open>
  The operations of the page itself keep the queue invariant: enqueueing, advancing
  (by hand or on the ended event), going back, and selecting from the history.
\<close>

lemma local_operations_keep_invariant:
  assumes "queue_invariant s"
  shows "queue_invariant (addToQueue captured url s)"
    and "queue_invariant (handleNext s)"
    and "queue_invariant (handlePrevious s)"
    and "queue_invariant (playFromHistory src s)"
    and "queue_invariant (handleMessage ev s)"
proof -
  show "queue_invariant (addToQueue captured url s)"
    using assms
    by (auto simp: queue_invariant_def addToQueue_def Let_def trackVideoAdded_def
        trackQueueSize_def saveStats_def)
  show "queue_invariant (handleNext s)"
    using assms by (auto simp: queue_invariant_def handleNext_def)
  show "queue_invariant (handlePrevious s)"
    using assms by (auto simp: queue_invariant_def handlePrevious_def)
  show "queue_invariant (playFromHistory src s)"
    using assms indexOf_cases [of "youtubeQueue s" src]
    by (auto simp: queue_invariant_def playFromHistory_def Let_def)
  show "queue_invariant (handleMessage ev s)"
    using assms
    by (auto simp: queue_invariant_def handleMessage_def
        split: message_data.splits option.splits)
qed

lemmas url_eval =
  getYoutubeVideoId_def isValidYoutubeUrl_def match_here_def id_group_def is_id_char_def
  is_digit_def starts_with_def sanitizeString_def trim_def is_white_space_def
  VALIDATION_MAX_MESSAGE_LENGTH_def

lemma sample_url_valid: "isValidYoutubeUrl ''https://youtu.be/dQw4w9WgXcQ''"
  by (simp add: url_eval)

lemma sample_url_sanitized:
  "sanitizeString ''https://youtu.be/dQw4w9WgXcQ'' VALIDATION_MAX_MESSAGE_LENGTH =
     ''https://youtu.be/dQw4w9WgXcQ''"
  by (simp add: url_eval)

lemma empty_url_invalid: "\<not> isValidYoutubeUrl []"
  by (simp add: url_eval)

lemma consistent_update_keeps_invariant:
  assumes "consistent_update m" and "queue_invariant s"
  shows "queue_invariant (onVideoStateChange m s)"
proof (cases "queue m")
  case None
  then show ?thesis
    using assms
    by (auto simp: consistent_update_def queue_invariant_def onVideoStateChange_def Let_def
        split: option.splits)
next
  case (Some q)
  show ?thesis
  proof (cases q)
    case Nil
    then show ?thesis
      using assms Some
      by (auto simp: consistent_update_def queue_invariant_def onVideoStateChange_def Let_def
          split: option.splits)
  next
    case (Cons x xs)
    then show ?thesis
      using assms Some
      by (auto simp: consistent_update_def queue_invariant_def onVideoStateChange_def Let_def
          split: option.splits)
  qed
qed

lemma admissible_keeps_invariant:
  assumes "queue_invariant s" and "admissible op"
  shows "queue_invariant (apply_operation op s)"
proof (cases op)
  case (ChatUpdate m)
  then show ?thesis
    using assms consistent_update_keeps_invariant [of m s] by (simp add: admissible_def)
qed (simp_all add: local_operations_keep_invariant [OF assms(1)])

lemma run_keeps_invariant:
  "queue_invariant s \<Longrightarrow> list_all admissible ops \<Longrightarrow> queue_invariant (run ops s)"
  unfolding run_def
  by (induction ops arbitrary: s) (simp_all add: admissible_keeps_invariant)

text \<open>
  Claim C3, as amended. In every state reached from the initial state (empty queue,
  \<open>currentIndex\<close> \<open>-1\<close>) by a sequence of enqueue, advance, retreat, select from
  history, messages from the player and chat updates that are consistent in themselves,
  \<open>currentIndex\<close> is below the length of the queue whenever it is at least 0.
\<close>

theorem queue_invariant_reachable:
  assumes "list_all admissible ops"
  shows "queue_invariant (run ops (initial_app b))"
proof -
  have "queue_invariant (initial_app b)"
    by (simp add: queue_invariant_def initial_app_def)
  then show ?thesis using assms by (rule run_keeps_invariant)
qed

theorem queue_invariant_reachable_witness:
  "list_all admissible
     [Enqueue initial_stats ''https://youtu.be/dQw4w9WgXcQ'',
      Enqueue initial_stats ''https://youtu.be/9bZkp7q19f0'',
      Advance,
      PlayerMessage (ended_message ''https://www.youtube.com''),
      Retreat,
      SelectFromHistory ''https://youtu.be/kJQP7kiw5Fk'',
      ChatUpdate \<lparr>videoUrl = None, playbackState = Some ''pause'',
                  queue = Some [''https://youtu.be/dQw4w9WgXcQ''], index = Some 0\<rparr>] \<and>
   queue_invariant
     (run
        [Enqueue initial_stats ''https://youtu.be/dQw4w9WgXcQ'',
         Enqueue initial_stats ''https://youtu.be/9bZkp7q19f0'',
         Advance,
         PlayerMessage (ended_message ''https://www.youtube.com''),
         Retreat,
         SelectFromHistory ''https://youtu.be/kJQP7kiw5Fk'',
         ChatUpdate \<lparr>videoUrl = None, playbackState = Some ''pause'',
                     queue = Some [''https://youtu.be/dQw4w9WgXcQ''], index = Some 0\<rparr>]
        (initial_app fresh_browser))"
proof -
  have a: "list_all admissible
     [Enqueue initial_stats ''https://youtu.be/dQw4w9WgXcQ'',
      Enqueue initial_stats ''https://youtu.be/9bZkp7q19f0'',
      Advance,
      PlayerMessage (ended_message ''https://www.youtube.com''),
      Retreat,
      SelectFromHistory ''https://youtu.be/kJQP7kiw5Fk'',
      ChatUpdate \<lparr>videoUrl = None, playbackState = Some ''pause'',
                  queue = Some [''https://youtu.be/dQw4w9WgXcQ''], index = Some 0\<rparr>]"
    by (simp add: admissible_def consistent_update_def)
  from a queue_invariant_reachable [OF a, of fresh_browser] show ?thesis by simp
qed

text \<open>
  Claim C3 as stated fails: \<open>onVideoStateChange\<close> accepts any index that is at least
  0 and any non-empty queue, without comparing the two. From the initial state, an
  update that carries only the index 3 leaves the queue empty and sets \<open>currentIndex\<close>
  to 3; and a one-element queue that replaces a queue of two leaves \<open>currentIndex\<close> at
  1.
\<close>

theorem queue_invariant_counterexample:
  "currentIndex
     (run [ChatUpdate \<lparr>videoUrl = None, playbackState = None, queue = None, index = Some 3\<rparr>]
        (initial_app fresh_browser)) = 3 \<and>
   youtubeQueue
     (run [ChatUpdate \<lparr>videoUrl = None, playbackState = None, queue = None, index = Some 3\<rparr>]
        (initial_app fresh_browser)) = [] \<and>
   \<not> queue_invariant
     (run [ChatUpdate \<lparr>videoUrl = None, playbackState = None, queue = None, index = Some 3\<rparr>]
        (initial_app fresh_browser)) \<and>
   \<not> queue_invariant
     (run
        [Enqueue initial_stats ''https://youtu.be/dQw4w9WgXcQ'',
         Enqueue initial_stats ''https://youtu.be/9bZkp7q19f0'',
         Advance,
         ChatUpdate \<lparr>videoUrl = None, playbackState = None,
                     queue = Some [''https://youtu.be/kJQP7kiw5Fk''], index = None\<rparr>]
        (initial_app fresh_browser))"
proof -
  have v: "isValidYoutubeUrl ''https://youtu.be/dQw4w9WgXcQ''"
    "isValidYoutubeUrl ''https://youtu.be/9bZkp7q19f0''"
    by (simp_all add: url_eval)
  have t: "sanitizeString ''https://youtu.be/dQw4w9WgXcQ'' VALIDATION_MAX_MESSAGE_LENGTH =
             ''https://youtu.be/dQw4w9WgXcQ''"
    "sanitizeString ''https://youtu.be/9bZkp7q19f0'' VALIDATION_MAX_MESSAGE_LENGTH =
             ''https://youtu.be/9bZkp7q19f0''"
    by (simp_all add: url_eval)
  show ?thesis
    by (simp add: run_def queue_invariant_def onVideoStateChange_def initial_app_def
        addToQueue_def handleNext_def Let_def v t trackVideoAdded_def trackQueueSize_def
        saveStats_def)
qed

lemma tracked_max_queue_size:
  "max_queue_size (stats (trackQueueSize captured n (trackVideoAdded captured s))) =
     max (max_queue_size captured) n"
  by (simp add: trackQueueSize_def trackVideoAdded_def saveStats_def or0_id)

lemma tracked_controller:
  "youtubeQueue (trackQueueSize captured n (trackVideoAdded captured s)) = youtubeQueue s"
  "currentIndex (trackQueueSize captured n (trackVideoAdded captured s)) = currentIndex s"
  "isYoutubePlaying (trackQueueSize captured n (trackVideoAdded captured s)) = isYoutubePlaying s"
  "urlError (trackQueueSize captured n (trackVideoAdded captured s)) = urlError s"
  by (simp_all add: trackQueueSize_def trackVideoAdded_def saveStats_def)

text \<open>
  Claim C7, as amended. An empty locator is ignored: nothing changes and no error is
  shown. A non-empty locator whose sanitized form (trimmed, cut to 500 characters)
  fails the URL pattern leaves queue, index and playing flag as they were and sets the
  validation error. A non-empty locator whose sanitized form passes is appended in its
  sanitized form and the error is cleared; into an empty queue it also selects index 0
  and starts playing, and \<open>max_queue_size\<close> becomes the larger of 1 and the value the
  callback captured; into a non-empty queue \<open>addToQueue\<close> itself leaves index and
  playing flag unchanged, and the effect on the changed queue then sets the playing
  flag if the index points into the queue.
\<close>

theorem addToQueue_contract:
  "addToQueue captured [] s = s \<and>
   (url \<noteq> [] \<and> \<not> isValidYoutubeUrl (sanitizeString url VALIDATION_MAX_MESSAGE_LENGTH) \<longrightarrow>
      youtubeQueue (addToQueue captured url s) = youtubeQueue s \<and>
      currentIndex (addToQueue captured url s) = currentIndex s \<and>
      isYoutubePlaying (addToQueue captured url s) = isYoutubePlaying s \<and>
      urlError (addToQueue captured url s) = ''Please enter a valid YouTube URL.'') \<and>
   (url \<noteq> [] \<and> isValidYoutubeUrl (sanitizeString url VALIDATION_MAX_MESSAGE_LENGTH) \<and>
    youtubeQueue s = [] \<longrightarrow>
      youtubeQueue (addToQueue captured url s) =
        [sanitizeString url VALIDATION_MAX_MESSAGE_LENGTH] \<and>
      currentIndex (addToQueue captured url s) = 0 \<and>
      isYoutubePlaying (addToQueue captured url s) \<and>
      max_queue_size (stats (addToQueue captured url s)) = max (max_queue_size captured) 1 \<and>
      urlError (addToQueue captured url s) = []) \<and>
   (url \<noteq> [] \<and> isValidYoutubeUrl (sanitizeString url VALIDATION_MAX_MESSAGE_LENGTH) \<and>
    youtubeQueue s \<noteq> [] \<longrightarrow>
      youtubeQueue (addToQueue captured url s) =
        youtubeQueue s @ [sanitizeString url VALIDATION_MAX_MESSAGE_LENGTH] \<and>
      currentIndex (addToQueue captured url s) = currentIndex s \<and>
      isYoutubePlaying (addToQueue captured url s) = isYoutubePlaying s \<and>
      urlError (addToQueue captured url s) = [] \<and>
      (0 \<le> currentIndex s \<and> currentIndex s < int (length (youtubeQueue s)) \<longrightarrow>
         isYoutubePlaying (play_from_queue_effect (addToQueue captured url s))))"
  by (simp add: addToQueue_def Let_def tracked_max_queue_size tracked_controller
      play_from_queue_effect_def)

theorem addToQueue_contract_witness:
  "youtubeQueue (addToQueue initial_stats ''https://youtu.be/dQw4w9WgXcQ''
      (initial_app fresh_browser)) = [''https://youtu.be/dQw4w9WgXcQ''] \<and>
   currentIndex (addToQueue initial_stats ''https://youtu.be/dQw4w9WgXcQ''
      (initial_app fresh_browser)) = 0 \<and>
   isYoutubePlaying (addToQueue initial_stats ''https://youtu.be/dQw4w9WgXcQ''
      (initial_app fresh_browser)) \<and>
   max_queue_size (stats (addToQueue initial_stats ''https://youtu.be/dQw4w9WgXcQ''
      (initial_app fresh_browser))) = 1 \<and>
   urlError (addToQueue initial_stats ''not a video'' (initial_app fresh_browser)) =
     ''Please enter a valid YouTube URL.'' \<and>
   youtubeQueue (addToQueue initial_stats ''not a video'' (initial_app fresh_browser)) = []"
proof -
  have q: "youtubeQueue (initial_app fresh_browser) = []"
    "currentIndex (initial_app fresh_browser) = - 1"
    "\<not> isYoutubePlaying (initial_app fresh_browser)"
    by (simp_all add: initial_app_def)
  have bad: "\<not> isValidYoutubeUrl (sanitizeString ''not a video'' VALIDATION_MAX_MESSAGE_LENGTH)"
    by (simp add: url_eval)
  show ?thesis
    using q bad sample_url_valid
      addToQueue_contract
        [of initial_stats "initial_app fresh_browser" "''https://youtu.be/dQw4w9WgXcQ''"]
      addToQueue_contract [of initial_stats "initial_app fresh_browser" "''not a video''"]
    by (simp add: sample_url_sanitized initial_stats_def)
qed

text \<open>
  Claim C7 as stated fails in five places. The empty locator fails URL validation, yet
  enqueueing it shows no validation error. A valid locator with a leading blank is
  stored without the blank. On a page whose saved \<open>max_queue_size\<close> is 5, the first
  enqueue leaves it at 5. On a paused page with a selected video, enqueueing another
  one is followed by the effect on the changed queue, which sets the playing flag. And
  in the scenario of the claim (the sample locator, the empty queue of a fresh page)
  \<open>videos_added\<close> is still 0 afterwards: \<open>trackQueueSize\<close> stores the stat mapping it
  captured, with only \<open>max_queue_size\<close> changed, over the one \<open>trackVideoAdded\<close> has
  just stored.
\<close>

theorem addToQueue_counterexample:
  "\<not> isValidYoutubeUrl [] \<and>
   urlError (addToQueue initial_stats [] (initial_app fresh_browser)) = [] \<and>
   isValidYoutubeUrl '' https://youtu.be/dQw4w9WgXcQ'' \<and>
   youtubeQueue (addToQueue initial_stats '' https://youtu.be/dQw4w9WgXcQ''
      (initial_app fresh_browser)) = [''https://youtu.be/dQw4w9WgXcQ''] \<and>
   max_queue_size
     (stats (addToQueue (initial_stats\<lparr>max_queue_size := 5\<rparr>) ''https://youtu.be/dQw4w9WgXcQ''
        ((initial_app fresh_browser)\<lparr>stats := initial_stats\<lparr>max_queue_size := 5\<rparr>\<rparr>))) = 5 \<and>
   \<not> isYoutubePlaying (two_video_app\<lparr>isYoutubePlaying := False\<rparr>) \<and>
   isYoutubePlaying
     (play_from_queue_effect
        (addToQueue initial_stats ''https://youtu.be/dQw4w9WgXcQ''
           (two_video_app\<lparr>isYoutubePlaying := False\<rparr>))) \<and>
   videos_added (stats (addToQueue initial_stats ''https://youtu.be/dQw4w9WgXcQ''
      (initial_app fresh_browser))) = 0 \<and>
   max_queue_size (stats (addToQueue initial_stats ''https://youtu.be/dQw4w9WgXcQ''
      (initial_app fresh_browser))) = 1"
proof -
  have blank: "isValidYoutubeUrl '' https://youtu.be/dQw4w9WgXcQ''"
    "sanitizeString '' https://youtu.be/dQw4w9WgXcQ'' VALIDATION_MAX_MESSAGE_LENGTH =
       ''https://youtu.be/dQw4w9WgXcQ''"
    by (simp_all add: url_eval)
  show ?thesis
    by (simp add: empty_url_invalid blank addToQueue_def Let_def sample_url_sanitized
        sample_url_valid trackVideoAdded_def trackQueueSize_def saveStats_def initial_app_def
        initial_stats_def or0_id two_video_app_def play_from_queue_effect_def)
qed

section \<open>Properties of the Discord connection counter\<close>

lemma handleDiscordConnect_increments:
  "discord_connections (stats (handleDiscordConnect (stats s) s)) =
     discord_connections (stats s) + 1"
  by (simp add: handleDiscordConnect_def trackDiscordConnection_def saveStats_def or0_id)

lemma url_params_effect_stats:
  assumes "present (username p)" and "present (avatar p)" and "present (userId p)"
  shows "stats (url_params_effect captured p s) =
           captured\<lparr>discord_connections := discord_connections captured + 1\<rparr>"
  using assms
  by (simp add: url_params_effect_def Let_def trackDiscordConnection_def saveStats_def or0_id
      split: option.splits)

text \<open>
  A page opened by a completed redirect ends with every counter at 0 except
  \<open>discord_connections\<close>, which is 1, whatever stat mapping the storage held.
\<close>

lemma page_load_after_redirect:
  assumes "present (username p)" and "present (avatar p)" and "present (userId p)"
  shows "stats (page_load b p) = initial_stats\<lparr>discord_connections := 1\<rparr>"
  by (simp add: page_load_def url_params_effect_stats [OF assms] initial_stats_def)

lemma first_connection_unlocked:
  assumes "1 \<le> discord_connections S"
  shows "1 \<in> checkAchievements S U"
proof -
  let ?a = "\<lparr>id' = 1, name = ''First Connection'', type' = ''discord_connection'',
             target = 1\<rparr>"
  have "?a \<in> {a \<in> set ACHIEVEMENT_DEFINITIONS. shouldUnlock S a}"
    using assms by (simp add: ACHIEVEMENT_DEFINITIONS_def shouldUnlock_def or0_id)
  then have "id' ?a \<in> id' ` {a \<in> set ACHIEVEMENT_DEFINITIONS. shouldUnlock S a}"
    by (rule imageI)
  then show ?thesis by (simp add: checkAchievements_eq)
qed

lemmas page_eval =
  page_load_def url_params_effect_def load_saved_stats_effect_def initial_app_def
  initial_stats_def safeLocalStorageGet_def safeLocalStorageSet_def safeJsonParse_def
  JSON_parse_def JSON_stringify_def stats_object_def num_def stats_of_object_def counter_def
  get_property_def stats_validator_def typeof_def trackDiscordConnection_def saveStats_def
  present_def or0_def handleDiscordConnect_def STORAGE_KEYS_STATS_def
  STORAGE_KEYS_USERNAME_def STORAGE_KEYS_DISCORD_AVATAR_def STORAGE_KEYS_DISCORD_USER_ID_def
  fresh_browser_def returning_browser_def returning_stats_def no_params_def oauth_params_def
  Let_def

lemma returning_user_loaded: "stats (page_load returning_browser no_params) = returning_stats"
  by (simp add: page_eval)

text \<open>
  Claim C10 against the code. For a returning user whose saved \<open>discord_connections\<close>
  is 0, a click on the connect button brings it to 1, which unlocks achievement 1, and
  stores it; a reload of that storage without query parameters shows 1, with the other
  counters as they were. The page that the completed redirect opens shows 1 as well,
  not 2, and every other counter at 0: the mount effect calls the
  \<open>trackDiscordConnection\<close> of the first render, which adds one to the initial 0 and
  stores that over the saved stat mapping.
\<close>

theorem discord_flow_counts_once:
  "discord_connections (stats (page_load returning_browser no_params)) = 0 \<and>
   discord_connections
     (stats (handleDiscordConnect (stats (page_load returning_browser no_params))
        (page_load returning_browser no_params))) = 1 \<and>
   1 \<in> checkAchievements
     (stats (handleDiscordConnect (stats (page_load returning_browser no_params))
        (page_load returning_browser no_params))) {} \<and>
   stats (page_load
        (browser (handleDiscordConnect (stats (page_load returning_browser no_params))
           (page_load returning_browser no_params)))
        no_params) = returning_stats\<lparr>discord_connections := 1\<rparr> \<and>
   stats (page_load
        (browser (handleDiscordConnect (stats (page_load returning_browser no_params))
           (page_load returning_browser no_params)))
        oauth_params) = initial_stats\<lparr>discord_connections := 1\<rparr> \<and>
   stats_of_object
     (safeLocalStorageGet
        (browser (page_load
           (browser (handleDiscordConnect (stats (page_load returning_browser no_params))
              (page_load returning_browser no_params)))
           oauth_params))
        STORAGE_KEYS_STATS (stats_object initial_stats) (Some stats_validator)) =
     initial_stats\<lparr>discord_connections := 1\<rparr>"
proof -
  let ?s0 = "page_load returning_browser no_params"
  let ?s1 = "handleDiscordConnect (stats ?s0) ?s0"
  have zero: "discord_connections (stats ?s0) = 0"
    by (simp add: returning_user_loaded returning_stats_def)
  have one: "discord_connections (stats ?s1) = 1"
    using handleDiscordConnect_increments [of ?s0] by (simp add: zero)
  have unlocked: "1 \<in> checkAchievements (stats ?s1) {}"
    by (rule first_connection_unlocked) (simp add: one)
  have reload: "stats (page_load (browser ?s1) no_params) =
                returning_stats\<lparr>discord_connections := 1\<rparr>"
    by (simp add: page_eval)
  have redirect: "stats (page_load (browser ?s1) oauth_params) =
                  initial_stats\<lparr>discord_connections := 1\<rparr>"
    by (simp add: page_load_after_redirect oauth_params_def present_def)
  have stored: "stats_of_object
     (safeLocalStorageGet (browser (page_load (browser ?s1) oauth_params))
        STORAGE_KEYS_STATS (stats_object initial_stats) (Some stats_validator)) =
     initial_stats\<lparr>discord_connections := 1\<rparr>"
    by (simp add: page_eval)
  from zero one unlocked reload redirect stored show ?thesis by simp
qed

end
